theory Spec2Isabelle
  imports Complex_Main
begin

section \<open>Tensor elements\<close>

text \<open>
  Entries of a float tensor. Finite values carry exact real arithmetic (rounding and
  overflow are not modelled, nor is the sign of zero); the three special values follow
  IEEE 754, so that a division by zero and an invalid operation are visible in the
  model instead of being hidden by the convention \<open>a / 0 = 0\<close> of HOL.
\<close>

datatype fl = Fin real | PInf | NInf | NaN

fun fl_neg :: "fl \<Rightarrow> fl" where
  "fl_neg (Fin a) = Fin (- a)"
| "fl_neg PInf = NInf"
| "fl_neg NInf = PInf"
| "fl_neg NaN = NaN"

fun fl_add :: "fl \<Rightarrow> fl \<Rightarrow> fl" where
  "fl_add NaN _ = NaN"
| "fl_add _ NaN = NaN"
| "fl_add (Fin a) (Fin b) = Fin (a + b)"
| "fl_add PInf NInf = NaN"
| "fl_add NInf PInf = NaN"
| "fl_add PInf _ = PInf"
| "fl_add _ PInf = PInf"
| "fl_add NInf _ = NInf"
| "fl_add _ NInf = NInf"

definition fl_sub :: "fl \<Rightarrow> fl \<Rightarrow> fl" where
  "fl_sub a b = fl_add a (fl_neg b)"

fun fl_mul :: "fl \<Rightarrow> fl \<Rightarrow> fl" where
  "fl_mul NaN _ = NaN"
| "fl_mul _ NaN = NaN"
| "fl_mul (Fin a) (Fin b) = Fin (a * b)"
| "fl_mul (Fin a) PInf = (if a = 0 then NaN else if 0 < a then PInf else NInf)"
| "fl_mul (Fin a) NInf = (if a = 0 then NaN else if 0 < a then NInf else PInf)"
| "fl_mul PInf (Fin b) = (if b = 0 then NaN else if 0 < b then PInf else NInf)"
| "fl_mul NInf (Fin b) = (if b = 0 then NaN else if 0 < b then NInf else PInf)"
| "fl_mul PInf PInf = PInf"
| "fl_mul NInf NInf = PInf"
| "fl_mul PInf NInf = NInf"
| "fl_mul NInf PInf = NInf"

fun fl_div :: "fl \<Rightarrow> fl \<Rightarrow> fl" where
  "fl_div NaN _ = NaN"
| "fl_div _ NaN = NaN"
| "fl_div (Fin a) (Fin b) =
     (if b = 0 then (if a = 0 then NaN else if 0 < a then PInf else NInf)
      else Fin (a / b))"
| "fl_div (Fin a) _ = Fin 0"
| "fl_div PInf (Fin b) = (if 0 \<le> b then PInf else NInf)"
| "fl_div NInf (Fin b) = (if 0 \<le> b then NInf else PInf)"
| "fl_div _ _ = NaN"

fun fl_abs :: "fl \<Rightarrow> fl" where
  "fl_abs (Fin a) = Fin \<bar>a\<bar>"
| "fl_abs NaN = NaN"
| "fl_abs _ = PInf"

fun fl_sqrt :: "fl \<Rightarrow> fl" where
  "fl_sqrt (Fin a) = (if a < 0 then NaN else Fin (sqrt a))"
| "fl_sqrt PInf = PInf"
| "fl_sqrt _ = NaN"

text \<open>The comparison \<open><\<close>: false as soon as one side is NaN.\<close>

fun fl_less :: "fl \<Rightarrow> fl \<Rightarrow> bool" where
  "fl_less NaN _ = False"
| "fl_less _ NaN = False"
| "fl_less (Fin a) (Fin b) = (a < b)"
| "fl_less _ NInf = False"
| "fl_less NInf _ = True"
| "fl_less PInf _ = False"
| "fl_less _ PInf = True"

text \<open>The reductions \<open>min\<close> and \<open>max\<close> of torch propagate NaN.\<close>

definition fl_min :: "fl \<Rightarrow> fl \<Rightarrow> fl" where
  "fl_min a b = (if a = NaN \<or> b = NaN then NaN else if fl_less b a then b else a)"

definition fl_max :: "fl \<Rightarrow> fl \<Rightarrow> fl" where
  "fl_max a b = (if a = NaN \<or> b = NaN then NaN else if fl_less a b then b else a)"

definition fl_sum :: "fl list \<Rightarrow> fl" where
  "fl_sum vs = foldl fl_add (Fin 0) vs"

section \<open>Errors, the tensor store and the dataset object\<close>

datatype error = RuntimeError | IndexError | KeyError | AttributeError | TypeError
  | AssertionError | ValueError

type_synonym matrix = "fl list list"

text \<open>
  Tensors are objects with identity: an attribute of the dataset holds a reference, two
  attributes may hold the same one, \<open>clone\<close> makes a new object and an indexed
  assignment changes the object in place. The store keeps the float tensors (attribute
  matrices, a list of rows) and the integer tensors (label vectors) by address; a new
  tensor gets the next free address.
\<close>

record store =
  ftensors :: "matrix list"
  ltensors :: "int list list"

definition falloc :: "store \<Rightarrow> matrix \<Rightarrow> store \<times> nat" where
  "falloc st m = (st\<lparr>ftensors := ftensors st @ [m]\<rparr>, length (ftensors st))"

definition lalloc :: "store \<Rightarrow> int list \<Rightarrow> store \<times> nat" where
  "lalloc st v = (st\<lparr>ltensors := ltensors st @ [v]\<rparr>, length (ltensors st))"

text \<open>
  The dataset object, with the attributes the transforms read and write. \<open>data_x\<close> and
  \<open>data_y\<close> are the attributes \<open>x\<close> and \<open>y\<close>; an attribute that may be missing
  (\<open>hasattr\<close> false) is an option. A sparse adjacency is a list of rows, each the list of
  its stored entries (column, value).
\<close>

type_synonym sparse = "(nat \<times> fl) list list"

record data =
  data_x :: nat
  x_raw :: "nat option"
  data_y :: "nat option"
  y_raw :: "nat option"
  train_mask :: "bool list"
  val_mask :: "bool list"
  test_mask :: "bool list"
  adj_t :: sparse
  edge_index :: "nat list \<times> nat list"
  num_classes :: nat
  num_nodes :: nat

text \<open>\<open>num_features\<close> is the second dimension of the attribute matrix.\<close>

definition num_features :: "matrix \<Rightarrow> nat" where
  "num_features m = (case m of [] \<Rightarrow> 0 | r # _ \<Rightarrow> length r)"

section \<open>LabelPerturbation\<close>

record LabelPerturbation =
  mechanism_y :: string
  epsilon_y :: "real option"
  lp_step :: int

text \<open>
  The registry \<open>supported_label_mechanisms\<close> is outside the transforms: a mechanism,
  given the budget and the number of classes, maps a label vector to a matrix with one
  row of class scores per node. Its random choices are part of the function handed to
  one invocation.
\<close>

type_synonym label_mechanisms = "string \<Rightarrow> (real \<Rightarrow> nat \<Rightarrow> int list \<Rightarrow> matrix) option"

text \<open>Selection by a boolean mask, for a vector and for both dimensions of a sparse matrix.\<close>

definition masked_select :: "'a list \<Rightarrow> bool list \<Rightarrow> 'a list" where
  "masked_select vs msk = map fst (filter snd (zip vs msk))"

definition renumber :: "bool list \<Rightarrow> nat \<Rightarrow> nat" where
  "renumber msk j = length (filter id (take j msk))"

definition sparse_select :: "sparse \<Rightarrow> bool list \<Rightarrow> sparse" where
  "sparse_select adj msk =
     map (\<lambda>row. map (\<lambda>(j, v). (renumber msk j, v))
                  (filter (\<lambda>(j, v). j < length msk \<and> msk ! j) row))
         (masked_select adj msk)"

text \<open>The assignment \<open>vs[mask] = new\<close>: the entries at the true positions, in order.\<close>

fun masked_assign :: "'a list \<Rightarrow> bool list \<Rightarrow> 'a list \<Rightarrow> 'a list" where
  "masked_assign (v # vs) (True # ms) (n # ns) = n # masked_assign vs ms ns"
| "masked_assign (v # vs) (False # ms) ns = v # masked_assign vs ms ns"
| "masked_assign vs _ _ = vs"

definition vec_add :: "fl list \<Rightarrow> fl list \<Rightarrow> fl list" where
  "vec_add u v = map (\<lambda>(a, b). fl_add a b) (zip u v)"

definition vec_scale :: "fl \<Rightarrow> fl list \<Rightarrow> fl list" where
  "vec_scale c v = map (fl_mul c) v"

text \<open>
  \<open>matmul(adj, y, reduce='sum')\<close> for a sparse left factor: row \<open>i\<close> of the result sums
  \<open>v * y[j]\<close> over the stored entries \<open>(j, v)\<close> of row \<open>i\<close>; a row without entries gives
  zeros.
\<close>

definition spmm :: "sparse \<Rightarrow> matrix \<Rightarrow> matrix" where
  "spmm adj ym =
     map (\<lambda>row. foldl (\<lambda>acc (j, v). vec_add acc (vec_scale v (ym ! j)))
                   (replicate (num_features ym) (Fin 0)) row) adj"

definition row_sum :: "(nat \<times> fl) list \<Rightarrow> fl" where
  "row_sum row = fl_sum (map snd row)"

text \<open>The diagonal operator with the values \<open>1 / deg\<close>, kept as the vector of its diagonal.\<close>

definition D_inv_of :: "fl list \<Rightarrow> fl list" where
  "D_inv_of deg = map (\<lambda>d. fl_div (Fin 1) d) deg"

definition diag_mm :: "fl list \<Rightarrow> matrix \<Rightarrow> matrix" where
  "diag_mm dg ym = map (\<lambda>(c, r). vec_scale c r) (zip dg ym)"

fun lp_loop :: "nat \<Rightarrow> sparse \<Rightarrow> fl list \<Rightarrow> matrix \<Rightarrow> matrix" where
  "lp_loop 0 adj dinv ym = ym"
| "lp_loop (Suc k) adj dinv ym = lp_loop k adj dinv (diag_mm dinv (spmm adj ym))"

text \<open>
  \<open>argmax\<close> along a row: the first position of the greatest value, a NaN counting as
  greater than every number (so the first NaN wins).
\<close>

fun argmax_from :: "nat \<Rightarrow> fl \<Rightarrow> nat \<Rightarrow> fl list \<Rightarrow> nat" where
  "argmax_from best bv i [] = best"
| "argmax_from best bv i (v # vs) =
     (if bv \<noteq> NaN \<and> (v = NaN \<or> fl_less bv v) then argmax_from i v (Suc i) vs
      else argmax_from best bv (Suc i) vs)"

definition argmax :: "fl list \<Rightarrow> error + nat" where
  "argmax r = (case r of [] \<Rightarrow> Inl IndexError | v # vs \<Rightarrow> Inr (argmax_from 0 v 1 vs))"

fun argmax_rows :: "matrix \<Rightarrow> error + int list" where
  "argmax_rows [] = Inr []"
| "argmax_rows (r # rs) =
     (case argmax r of Inl e \<Rightarrow> Inl e
      | Inr k \<Rightarrow> (case argmax_rows rs of Inl e \<Rightarrow> Inl e | Inr ks \<Rightarrow> Inr (int k # ks)))"

definition perturb ::
  "label_mechanisms \<Rightarrow> LabelPerturbation \<Rightarrow> sparse \<Rightarrow> int list \<Rightarrow> nat \<Rightarrow> error + int list" where
  "perturb mechs self adj yv ncls =
     (case mechs (mechanism_y self) of
        None \<Rightarrow> Inl KeyError
      | Some mech \<Rightarrow>
          (case epsilon_y self of
             None \<Rightarrow> Inl TypeError
           | Some eps \<Rightarrow>
               let n = length adj;
                   ym = mech eps ncls yv;
                   deg = map row_sum adj;
                   dinv = D_inv_of deg
               in if 0 < lp_step self \<and> length ym \<noteq> n then Inl RuntimeError
                  else argmax_rows (lp_loop (nat (lp_step self)) adj dinv ym)))"

text \<open>The first step of \<open>__call__\<close>: snapshot the labels, or restore them from the snapshot.\<close>

definition restore_y :: "store \<times> data \<Rightarrow> nat \<Rightarrow> store \<times> data" where
  "restore_y sd ya =
     (let (st, d) = sd in
      case y_raw d of
        None \<Rightarrow> (let (st', a) = lalloc st (ltensors st ! ya) in (st', d\<lparr>y_raw := Some a\<rparr>))
      | Some r \<Rightarrow> (let (st', a) = lalloc st (ltensors st ! r) in (st', d\<lparr>data_y := Some a\<rparr>)))"

text \<open>Line 97: \<open>train_mask | val_mask\<close>, elementwise.\<close>

definition perturb_mask :: "data \<Rightarrow> bool list" where
  "perturb_mask d = map (\<lambda>(t, v). t \<or> v) (zip (train_mask d) (val_mask d))"

definition LabelPerturbation_call ::
  "label_mechanisms \<Rightarrow> LabelPerturbation \<Rightarrow> store \<times> data \<Rightarrow> error + store \<times> data" where
  "LabelPerturbation_call mechs self sd =
     (case epsilon_y self of
        None \<Rightarrow> Inr sd
      | Some eps \<Rightarrow>
          (case data_y (snd sd) of
             None \<Rightarrow> Inl AttributeError
           | Some ya \<Rightarrow>
               let (st, d) = restore_y sd ya in
               (case data_y d of
                  None \<Rightarrow> Inl AttributeError
                | Some a \<Rightarrow>
                    let yv = ltensors st ! a in
                    if length (train_mask d) \<noteq> length (val_mask d) then Inl RuntimeError
                    else if length (perturb_mask d) \<noteq> length yv
                            \<or> length (perturb_mask d) \<noteq> length (adj_t d)
                    then Inl IndexError
                    else
                      (case perturb mechs self (sparse_select (adj_t d) (perturb_mask d))
                              (masked_select yv (perturb_mask d)) (num_classes d) of
                         Inl e \<Rightarrow> Inl e
                       | Inr new \<Rightarrow>
                           if length new \<noteq> length (filter id (perturb_mask d))
                           then Inl RuntimeError
                           else Inr (st\<lparr>ltensors :=
                                          (ltensors st)[a := masked_assign yv (perturb_mask d) new]\<rparr>,
                                     d)))))"

text \<open>Repeated invocation, one registry (with its random choices) per invocation.\<close>

fun LabelPerturbation_calls ::
  "label_mechanisms list \<Rightarrow> LabelPerturbation \<Rightarrow> store \<times> data \<Rightarrow> error + store \<times> data" where
  "LabelPerturbation_calls [] self sd = Inr sd"
| "LabelPerturbation_calls (m # ms) self sd =
     (case LabelPerturbation_call m self sd of
        Inl e \<Rightarrow> Inl e
      | Inr sd' \<Rightarrow> LabelPerturbation_calls ms self sd')"

section \<open>RandomizedProjection and FeaturePerturbation\<close>

text \<open>
  What one invocation takes from outside the transforms: the outcome of \<open>torch.rand\<close>
  for the requested shape, and the registry \<open>supported_feature_mechanisms\<close>, whose
  mechanisms map (budget, range) to a function on attribute matrices that returns a
  new tensor.
\<close>

type_synonym feature_mechanisms =
  "string \<Rightarrow> (real \<Rightarrow> fl \<times> fl \<Rightarrow> matrix \<Rightarrow> matrix) option"

record env =
  torch_rand :: "nat \<Rightarrow> nat \<Rightarrow> matrix"
  supported_feature_mechanisms :: feature_mechanisms

record RandomizedProjection =
  w :: matrix

definition RandomizedProjection_init :: "env \<Rightarrow> nat \<Rightarrow> nat \<Rightarrow> RandomizedProjection" where
  "RandomizedProjection_init e input_dim output_dim = \<lparr>w = torch_rand e input_dim output_dim\<rparr>"

text \<open>
  Dense product. A matrix is the list of its rows, so the column count of a matrix
  without rows is not represented; the product of a row with \<open>wm\<close> has one entry per
  column of \<open>wm\<close>.
\<close>

definition dot :: "fl list \<Rightarrow> fl list \<Rightarrow> fl" where
  "dot u v = fl_sum (map (\<lambda>(a, b). fl_mul a b) (zip u v))"

definition column :: "matrix \<Rightarrow> nat \<Rightarrow> fl list" where
  "column m j = map (\<lambda>r. r ! j) m"

definition columns :: "matrix \<Rightarrow> fl list list" where
  "columns m = map (column m) [0..<num_features m]"

definition matmul :: "matrix \<Rightarrow> matrix \<Rightarrow> error + matrix" where
  "matmul xm wm =
     (if (\<forall>r \<in> set xm. length r = length wm) \<and> (\<forall>r \<in> set wm. length r = num_features wm)
      then Inr (map (\<lambda>r. map (dot r) (columns wm)) xm)
      else Inl RuntimeError)"

definition RandomizedProjection_call ::
  "RandomizedProjection \<Rightarrow> store \<times> data \<Rightarrow> error + store \<times> data" where
  "RandomizedProjection_call self sd =
     (let (st, d) = sd in
      case matmul (ftensors st ! data_x d) (w self) of
        Inl e \<Rightarrow> Inl e
      | Inr m \<Rightarrow> (let (st', a) = falloc st m in Inr (st', d\<lparr>data_x := a\<rparr>)))"

record FeaturePerturbation =
  mechanism_x :: string
  input_range :: "(fl \<times> fl) option"
  reduce_dim :: "int option"
  epsilon_x :: "real option"

definition FeaturePerturbation_init ::
  "string \<Rightarrow> real option \<Rightarrow> int option \<Rightarrow> (fl \<times> fl) option \<Rightarrow> FeaturePerturbation" where
  "FeaturePerturbation_init mx ex rd data_range =
     \<lparr>mechanism_x = mx, input_range = data_range, reduce_dim = rd, epsilon_x = ex\<rparr>"

text \<open>\<open>x.min()\<close> and \<open>x.max()\<close> over all entries; they raise on a tensor without entries.\<close>

definition tensor_min :: "matrix \<Rightarrow> error + fl" where
  "tensor_min m = (case concat m of [] \<Rightarrow> Inl RuntimeError | v # vs \<Rightarrow> Inr (foldl fl_min v vs))"

definition tensor_max :: "matrix \<Rightarrow> error + fl" where
  "tensor_max m = (case concat m of [] \<Rightarrow> Inl RuntimeError | v # vs \<Rightarrow> Inr (foldl fl_max v vs))"

text \<open>Lines 57 to 60: back the attributes up (the same tensor object), or restore them.\<close>

definition restore_x :: "data \<Rightarrow> data" where
  "restore_x d =
     (case x_raw d of
        None \<Rightarrow> d\<lparr>x_raw := Some (data_x d)\<rparr>
      | Some r \<Rightarrow> d\<lparr>data_x := r\<rparr>)"

text \<open>Lines 62 and 63: the range is computed only while the instance has none.\<close>

definition freeze_range :: "FeaturePerturbation \<Rightarrow> matrix \<Rightarrow> error + FeaturePerturbation" where
  "freeze_range self xm =
     (case input_range self of
        Some rg \<Rightarrow> Inr self
      | None \<Rightarrow>
          (case tensor_min xm of
             Inl e \<Rightarrow> Inl e
           | Inr lo \<Rightarrow>
               (case tensor_max xm of
                  Inl e \<Rightarrow> Inl e
                | Inr hi \<Rightarrow> Inr (self\<lparr>input_range := Some (lo, hi)\<rparr>))))"

text \<open>
  Lines 65 and 66: with a \<open>reduce_dim\<close> that is neither \<open>None\<close> nor 0, a
  \<open>RandomizedProjection\<close> is constructed (which draws its matrix) and applied. A
  negative dimension makes \<open>torch.rand\<close> raise.
\<close>

definition project_x :: "env \<Rightarrow> FeaturePerturbation \<Rightarrow> store \<times> data \<Rightarrow> error + store \<times> data" where
  "project_x e self sd =
     (case reduce_dim self of
        None \<Rightarrow> Inr sd
      | Some k \<Rightarrow>
          if k = 0 then Inr sd
          else if k < 0 then Inl RuntimeError
          else RandomizedProjection_call
                 (RandomizedProjection_init e
                    (num_features (ftensors (fst sd) ! data_x (snd sd))) (nat k)) sd)"

text \<open>
  The state in which the mechanism is invoked: the instance with its range, and the
  dataset whose \<open>x\<close> is the argument of the mechanism.
\<close>

definition prepare ::
  "env \<Rightarrow> FeaturePerturbation \<Rightarrow> store \<times> data \<Rightarrow> error + FeaturePerturbation \<times> store \<times> data" where
  "prepare e self sd =
     (let (st, d) = sd; d1 = restore_x d in
      case freeze_range self (ftensors st ! data_x d1) of
        Inl err \<Rightarrow> Inl err
      | Inr self1 \<Rightarrow>
          (case project_x e self1 (st, d1) of
             Inl err \<Rightarrow> Inl err
           | Inr sd2 \<Rightarrow> Inr (self1, sd2)))"

definition FeaturePerturbation_call ::
  "env \<Rightarrow> FeaturePerturbation \<Rightarrow> store \<times> data \<Rightarrow> error + FeaturePerturbation \<times> store \<times> data" where
  "FeaturePerturbation_call e self sd =
     (case epsilon_x self of
        None \<Rightarrow> Inr (self, sd)
      | Some eps \<Rightarrow>
          (case prepare e self sd of
             Inl err \<Rightarrow> Inl err
           | Inr (self1, st2, d2) \<Rightarrow>
               (case supported_feature_mechanisms e (mechanism_x self1) of
                  None \<Rightarrow> Inl KeyError
                | Some mech \<Rightarrow>
                    (case input_range self1 of
                       None \<Rightarrow> Inl TypeError
                     | Some rg \<Rightarrow>
                         let (st3, a) = falloc st2 (mech eps rg (ftensors st2 ! data_x d2))
                         in Inr (self1, st3, d2\<lparr>data_x := a\<rparr>)))))"

fun FeaturePerturbation_calls ::
  "env list \<Rightarrow> FeaturePerturbation \<Rightarrow> store \<times> data \<Rightarrow> error + FeaturePerturbation \<times> store \<times> data" where
  "FeaturePerturbation_calls [] self sd = Inr (self, sd)"
| "FeaturePerturbation_calls (e # es) self sd =
     (case FeaturePerturbation_call e self sd of
        Inl err \<Rightarrow> Inl err
      | Inr (self', sd') \<Rightarrow> FeaturePerturbation_calls es self' sd')"

section \<open>NodeSplit\<close>

text \<open>
  The ratios are Python floats, and \<open>ratio * n\<close> and \<open>1 - (val_ratio + test_ratio)\<close>
  are computed in double precision: the exact result is rounded to the nearest number
  with a significand of 53 bits, ties to the even significand. A float is modelled by
  its real value; the exponent range (overflow, subnormal numbers) is not modelled, and
  \<open>n\<close> is taken to convert exactly.
\<close>

definition round_half_even :: "real \<Rightarrow> int" where
  "round_half_even x =
     (let f = \<lfloor>x\<rfloor>; d = x - of_int f
      in if d < 1 / 2 then f else if 1 / 2 < d then f + 1 else if even f then f else f + 1)"

definition double_round :: "real \<Rightarrow> real" where
  "double_round x =
     (if x = 0 then 0
      else let e = \<lfloor>log 2 \<bar>x\<bar>\<rfloor>; u = 2 powr (of_int e - 52)
           in sgn x * of_int (round_half_even (\<bar>x\<bar> / u)) * u)"

record NodeSplit =
  train_ratio :: real
  val_ratio :: real
  test_ratio :: real

definition NodeSplit_init :: "real option \<Rightarrow> real \<Rightarrow> real \<Rightarrow> error + NodeSplit" where
  "NodeSplit_init tr vr ter =
     (let t = (case tr of None \<Rightarrow> double_round (1 - double_round (vr + ter)) | Some r \<Rightarrow> r)
      in if 0 < t then Inr \<lparr>train_ratio = t, val_ratio = vr, test_ratio = ter\<rparr>
         else Inl AssertionError)"

text \<open>\<open>int(r)\<close> truncates towards zero.\<close>

definition py_int :: "real \<Rightarrow> int" where
  "py_int r = (if 0 \<le> r then \<lfloor>r\<rfloor> else \<lceil>r\<rceil>)"

text \<open>Lines 159 to 161: \<open>int(ratio * n)\<close>, the double product truncated.\<close>

definition scaled_count :: "real \<Rightarrow> nat \<Rightarrow> int" where
  "scaled_count r n = py_int (double_round (r * real n))"

text \<open>
  The slice \<open>xs[a:b]\<close>: a negative bound counts from the end, and both bounds are
  clamped to the list.
\<close>

definition slice_bound :: "nat \<Rightarrow> int \<Rightarrow> nat" where
  "slice_bound n i = (if i < 0 then nat (int n + i) else min (nat i) n)"

definition py_slice :: "'a list \<Rightarrow> int \<Rightarrow> int \<Rightarrow> 'a list" where
  "py_slice xs a b =
     (let lo = slice_bound (length xs) a; hi = slice_bound (length xs) b
      in take (hi - lo) (drop lo xs))"

text \<open>\<open>m[idx] = True\<close> for an index tensor; an index outside the tensor raises.\<close>

definition index_fill :: "bool list \<Rightarrow> nat list \<Rightarrow> error + bool list" where
  "index_fill m idx =
     (if \<forall>i \<in> set idx. i < length m then Inr (foldl (\<lambda>acc i. acc[i := True]) m idx)
      else Inl IndexError)"

text \<open>
  Lines 152 to 157: the nodes that carry a class. The test \<open>-1 in data.y\<close> decides
  whether the label vector is looked at; otherwise every node counts.
\<close>

definition nodes_with_class :: "store \<times> data \<Rightarrow> bool list" where
  "nodes_with_class sd =
     (case data_y (snd sd) of
        None \<Rightarrow> replicate (num_nodes (snd sd)) True
      | Some a \<Rightarrow>
          if - 1 \<in> set (ltensors (fst sd) ! a) then map (\<lambda>v. v \<noteq> - 1) (ltensors (fst sd) ! a)
          else replicate (num_nodes (snd sd)) True)"

definition num_nodes_with_class :: "store \<times> data \<Rightarrow> nat" where
  "num_nodes_with_class sd =
     (case data_y (snd sd) of
        None \<Rightarrow> num_nodes (snd sd)
      | Some a \<Rightarrow>
          if - 1 \<in> set (ltensors (fst sd) ! a) then length (filter id (nodes_with_class sd))
          else num_nodes (snd sd))"

text \<open>
  \<open>randperm\<close> is the outcome of \<open>torch.randperm\<close> for this invocation, as a function of
  the requested length.
\<close>

definition NodeSplit_call ::
  "(nat \<Rightarrow> nat list) \<Rightarrow> NodeSplit \<Rightarrow> store \<times> data \<Rightarrow> error + store \<times> data" where
  "NodeSplit_call randperm self sd =
     (let n_all = num_nodes (snd sd);
          n = num_nodes_with_class sd;
          n_train = scaled_count (train_ratio self) n;
          n_val = scaled_count (val_ratio self) n;
          n_test = scaled_count (test_ratio self) n;
          perm = randperm n;
          train_nodes = py_slice perm 0 n_train;
          val_nodes = py_slice perm n_train (n_train + n_val);
          test_nodes = py_slice perm (n_train + n_val) (n_train + n_val + n_test);
          zeros = replicate n False
      in case index_fill zeros val_nodes of
           Inl e \<Rightarrow> Inl e
         | Inr temp_val_mask \<Rightarrow>
        (case index_fill zeros test_nodes of
           Inl e \<Rightarrow> Inl e
         | Inr temp_test_mask \<Rightarrow>
        (case index_fill zeros train_nodes of
           Inl e \<Rightarrow> Inl e
         | Inr temp_train_mask \<Rightarrow>
             if length (nodes_with_class sd) \<noteq> n_all then Inl IndexError
             else Inr (fst sd,
                       (snd sd)\<lparr>val_mask := masked_assign (replicate n_all False)
                                               (nodes_with_class sd) temp_val_mask,
                                 test_mask := masked_assign (replicate n_all False)
                                                (nodes_with_class sd) temp_test_mask,
                                 train_mask := masked_assign (replicate n_all False)
                                                 (nodes_with_class sd) temp_train_mask\<rparr>))))"

section \<open>Normalize\<close>

text \<open>
  The result of an index expression is a matrix, or a vector when one index is a
  zero-dimensional tensor: \<open>squeeze()\<close> turns the index tensor of a single surviving
  column into one.
\<close>

datatype tensor = Vec "fl list" | Mat matrix

text \<open>\<open>min(dim=0)\<close> and \<open>max(dim=0)\<close>: per column, raising when there is no row.\<close>

definition min_dim0 :: "matrix \<Rightarrow> error + fl list" where
  "min_dim0 m = (case m of [] \<Rightarrow> Inl IndexError
                 | r # rs \<Rightarrow> Inr (foldl (\<lambda>acc row. map (\<lambda>(a, b). fl_min a b) (zip acc row)) r rs))"

definition max_dim0 :: "matrix \<Rightarrow> error + fl list" where
  "max_dim0 m = (case m of [] \<Rightarrow> Inl IndexError
                 | r # rs \<Rightarrow> Inr (foldl (\<lambda>acc row. map (\<lambda>(a, b). fl_max a b) (zip acc row)) r rs))"

definition vec_sub :: "fl list \<Rightarrow> fl list \<Rightarrow> fl list" where
  "vec_sub u v = map (\<lambda>(a, b). fl_sub a b) (zip u v)"

definition nonzero :: "fl list \<Rightarrow> nat list" where
  "nonzero v = filter (\<lambda>j. v ! j \<noteq> Fin 0) [0..<length v]"

text \<open>
  The value bound to \<open>data.x\<close> by \<open>Normalize(low, high)\<close>, from the matrix bound to it
  before.
\<close>

definition Normalize_call :: "real \<Rightarrow> real \<Rightarrow> matrix \<Rightarrow> error + tensor" where
  "Normalize_call low high xm =
     (case min_dim0 xm of
        Inl e \<Rightarrow> Inl e
      | Inr alpha \<Rightarrow>
          (case max_dim0 xm of
             Inl e \<Rightarrow> Inl e
           | Inr beta \<Rightarrow>
               let delta = vec_sub beta alpha;
                   scaled = map (\<lambda>r. map (\<lambda>((v, a), dl).
                                  fl_add (fl_div (fl_mul (fl_sub v a) (Fin (high - low))) dl) (Fin low))
                                (zip (zip r alpha) delta)) xm
               in (case nonzero delta of
                     [j] \<Rightarrow> Inr (Vec (map (\<lambda>r. r ! j) scaled))
                   | js \<Rightarrow> Inr (Mat (map (\<lambda>r. map (\<lambda>j. r ! j) js) scaled)))))"

text \<open>The columns of a result: a vector is the single column it was selected from.\<close>

definition tensor_columns :: "tensor \<Rightarrow> fl list list" where
  "tensor_columns t = (case t of Vec v \<Rightarrow> [v] | Mat m \<Rightarrow> columns m)"

section \<open>ErrorEstimation\<close>

text \<open>
  The graph convolution (\<open>GCNConv\<close> with an identity weight, a library function) is a
  parameter \<open>conv\<close>: a function of the attribute matrix and the edge index. The
  estimator keeps the dataset object itself, so \<open>run\<close> reads the attributes the
  dataset has when it runs.
\<close>

record ErrorEstimation =
  delta :: "fl list"
  max_degree_quantile :: real
  gc :: matrix

definition ErrorEstimation_init ::
  "(matrix \<Rightarrow> nat list \<times> nat list \<Rightarrow> matrix) \<Rightarrow> data \<Rightarrow> matrix \<Rightarrow> real \<Rightarrow> error + ErrorEstimation" where
  "ErrorEstimation_init conv d raw_features q =
     (case min_dim0 raw_features of
        Inl e \<Rightarrow> Inl e
      | Inr alpha \<Rightarrow>
          (case max_dim0 raw_features of
             Inl e \<Rightarrow> Inl e
           | Inr beta \<Rightarrow>
               Inr \<lparr>delta = vec_sub beta alpha, max_degree_quantile = q,
                    gc = conv raw_features (edge_index d)\<rparr>))"

text \<open>Lines 31 to 33: the discrepancy, before and after the columns with range 0 are zeroed.\<close>

definition raw_diff :: "matrix \<Rightarrow> matrix \<Rightarrow> fl list \<Rightarrow> matrix" where
  "raw_diff g h dl =
     map (\<lambda>(gr, hr). map (\<lambda>((a, b), c). fl_div (fl_sub a b) c) (zip (zip gr hr) dl)) (zip g h)"

definition zero_columns :: "matrix \<Rightarrow> fl list \<Rightarrow> matrix" where
  "zero_columns m dl = map (\<lambda>r. map (\<lambda>(v, c). if c = Fin 0 then Fin 0 else v) (zip r dl)) m"

definition norm1 :: "fl list \<Rightarrow> fl" where
  "norm1 r = fl_sum (map fl_abs r)"

text \<open>Lines 31 to 34: the error of each node.\<close>

definition node_errors ::
  "(matrix \<Rightarrow> nat list \<times> nat list \<Rightarrow> matrix) \<Rightarrow> ErrorEstimation \<Rightarrow> store \<times> data \<Rightarrow> error + fl list" where
  "node_errors conv self sd =
     (let (st, d) = sd;
          xm = ftensors st ! data_x d;
          gc_hat = conv xm (edge_index d)
      in if length gc_hat \<noteq> length (gc self)
            \<or> (\<exists>r \<in> set (gc self). length r \<noteq> length (delta self))
            \<or> (\<exists>r \<in> set gc_hat. length r \<noteq> length (delta self))
         then Inl RuntimeError
         else let diff = zero_columns (raw_diff (gc self) gc_hat (delta self)) (delta self)
              in Inr (map (\<lambda>r. fl_div (norm1 r) (Fin (real (num_features xm)))) diff))"

text \<open>\<open>degree(row, num_nodes)\<close>: how often each node occurs in \<open>row\<close>.\<close>

definition degree :: "nat list \<Rightarrow> nat \<Rightarrow> error + real list" where
  "degree row n =
     (if \<forall>i \<in> set row. i < n then Inr (map (\<lambda>i. real (count_list row i)) [0..<n])
      else Inl RuntimeError)"

text \<open>
  The quantile of a series with linear interpolation between the two nearest ranks;
  NaN for an empty series.
\<close>

definition quantile :: "real list \<Rightarrow> real \<Rightarrow> error + fl" where
  "quantile vs q =
     (if q < 0 \<or> 1 < q then Inl ValueError
      else if vs = [] then Inr NaN
      else let s = sort vs;
               h = (real (length vs) - 1) * q;
               lo = nat \<lfloor>h\<rfloor>;
               hi = nat \<lceil>h\<rceil>
           in Inr (Fin (s ! lo + (s ! hi - s ! lo) * (h - real lo))))"

text \<open>
  \<open>groupby('degree').agg(['mean', 'std']).fillna(0)\<close>: the groups in ascending order of
  the degree; mean and sample standard deviation skip NaN entries, and are NaN for no
  entry (the deviation also for a single one), which \<open>fillna\<close> replaces by 0.
\<close>

definition not_nan :: "fl list \<Rightarrow> fl list" where
  "not_nan es = filter (\<lambda>e. e \<noteq> NaN) es"

definition group_mean :: "fl list \<Rightarrow> fl" where
  "group_mean es = fl_div (fl_sum (not_nan es)) (Fin (real (length (not_nan es))))"

definition group_std :: "fl list \<Rightarrow> fl" where
  "group_std es =
     (if length (not_nan es) \<le> 1 then NaN
      else fl_sqrt (fl_div (fl_sum (map (\<lambda>e. fl_mul (fl_sub e (group_mean es)) (fl_sub e (group_mean es)))
                                      (not_nan es)))
                           (Fin (real (length (not_nan es)) - 1))))"

definition fillna :: "fl \<Rightarrow> fl" where
  "fillna v = (if v = NaN then Fin 0 else v)"

definition groupby_agg :: "(real \<times> fl) list \<Rightarrow> (real \<times> fl \<times> fl) list" where
  "groupby_agg df =
     map (\<lambda>dg. let es = map snd (filter (\<lambda>(k, e). k = dg) df)
               in (dg, fillna (group_mean es), fillna (group_std es)))
         (sort (remdups (map fst df)))"

text \<open>\<open>run\<close> returns the metrics it logs: one triple (degree, mae, std) per bucket.\<close>

definition run ::
  "(matrix \<Rightarrow> nat list \<times> nat list \<Rightarrow> matrix) \<Rightarrow> ErrorEstimation \<Rightarrow> store \<times> data
     \<Rightarrow> error + (real \<times> fl \<times> fl) list" where
  "run conv self sd =
     (case node_errors conv self sd of
        Inl e \<Rightarrow> Inl e
      | Inr errors \<Rightarrow>
          (case degree (fst (edge_index (snd sd))) (num_nodes (snd sd)) of
             Inl e \<Rightarrow> Inl e
           | Inr degrees \<Rightarrow>
               if length degrees \<noteq> length errors then Inl ValueError
               else (case quantile degrees (max_degree_quantile self) of
                       Inl e \<Rightarrow> Inl e
                     | Inr qv \<Rightarrow>
                         Inr (groupby_agg (filter (\<lambda>(dg, e). fl_less (Fin dg) qv)
                                             (zip degrees errors))))))"

section \<open>Observations and invariants used in the statements\<close>

text \<open>The label vector the dataset currently shows.\<close>

definition labels :: "store \<times> data \<Rightarrow> int list" where
  "labels sd = (case data_y (snd sd) of None \<Rightarrow> [] | Some a \<Rightarrow> ltensors (fst sd) ! a)"

text \<open>
  The label snapshot, once taken, is a tensor of its own that holds \<open>y0\<close>; before it is
  taken, the labels themselves are \<open>y0\<close>.
\<close>

definition snapshot_inv :: "int list \<Rightarrow> store \<times> data \<Rightarrow> bool" where
  "snapshot_inv y0 sd =
     (case data_y (snd sd) of
        None \<Rightarrow> False
      | Some a \<Rightarrow> a < length (ltensors (fst sd)) \<and>
          (case y_raw (snd sd) of
             None \<Rightarrow> ltensors (fst sd) ! a = y0
           | Some r \<Rightarrow> r < length (ltensors (fst sd)) \<and> r \<noteq> a \<and> ltensors (fst sd) ! r = y0))"

section \<open>A small dataset and two outcomes of the label mechanism\<close>

definition one_hot :: "nat \<Rightarrow> int \<Rightarrow> fl list" where
  "one_hot ncls c = map (\<lambda>k. if int k = c then Fin 1 else Fin 0) [0..<ncls]"

text \<open>A randomized response that happened to report every true class.\<close>

definition truthful :: label_mechanisms where
  "truthful name = (if name = ''krr'' then Some (\<lambda>eps ncls yv. map (one_hot ncls) yv) else None)"

text \<open>A randomized response that happened to report the next class for every node.\<close>

definition lying :: label_mechanisms where
  "lying name = (if name = ''krr''
     then Some (\<lambda>eps ncls yv. map (\<lambda>c. one_hot ncls ((c + 1) mod int ncls)) yv) else None)"

text \<open>Three nodes: node 0 is isolated, nodes 1 and 2 are joined by an edge.\<close>

definition ex_store :: store where
  "ex_store = \<lparr>ftensors = [[[Fin 0], [Fin 1], [Fin 2]]], ltensors = [[1, 0, 1]]\<rparr>"

definition ex_data :: data where
  "ex_data = \<lparr>data_x = 0, x_raw = None, data_y = Some 0, y_raw = None,
     train_mask = [True, False, False], val_mask = [False, True, False],
     test_mask = [False, False, True],
     adj_t = [[], [(2, Fin 1)], [(1, Fin 1)]],
     edge_index = ([1, 2], [2, 1]), num_classes = 2, num_nodes = 3\<rparr>"

definition ex_lp :: LabelPerturbation where
  "ex_lp = \<lparr>mechanism_y = ''krr'', epsilon_y = Some 1, lp_step = 0\<rparr>"

section \<open>Observations used in the statements about FeaturePerturbation\<close>

text \<open>The attribute matrix the dataset currently shows.\<close>

definition attributes :: "store \<times> data \<Rightarrow> matrix" where
  "attributes sd = ftensors (fst sd) ! data_x (snd sd)"

text \<open>The pristine attributes: the snapshot when there is one, the attributes otherwise.\<close>

definition pristine :: "store \<times> data \<Rightarrow> matrix" where
  "pristine sd = (case x_raw (snd sd) of
                    None \<Rightarrow> ftensors (fst sd) ! data_x (snd sd)
                  | Some r \<Rightarrow> ftensors (fst sd) ! r)"

text \<open>The references of the dataset point into the store.\<close>

definition x_refs_ok :: "store \<times> data \<Rightarrow> bool" where
  "x_refs_ok sd = (data_x (snd sd) < length (ftensors (fst sd))
                   \<and> (case x_raw (snd sd) of None \<Rightarrow> True
                       | Some r \<Rightarrow> r < length (ftensors (fst sd))))"

text \<open>Lines 65 and 66 as a function of the matrix they are applied to.\<close>

definition projected :: "env \<Rightarrow> FeaturePerturbation \<Rightarrow> matrix \<Rightarrow> error + matrix" where
  "projected e self xm =
     (case reduce_dim self of
        None \<Rightarrow> Inr xm
      | Some k \<Rightarrow> if k = 0 then Inr xm else if k < 0 then Inl RuntimeError
                  else matmul xm (torch_rand e (num_features xm) (nat k)))"

text \<open>The range of the instance, when it has one, is (min, max) of the matrix \<open>x0\<close>.\<close>

definition range_from :: "matrix \<Rightarrow> FeaturePerturbation \<Rightarrow> bool" where
  "range_from x0 self =
     (case input_range self of
        None \<Rightarrow> True
      | Some rg \<Rightarrow> tensor_min x0 = Inr (fst rg) \<and> tensor_max x0 = Inr (snd rg))"

section \<open>An outcome of the feature mechanism and of the random draw\<close>

text \<open>A mechanism outcome that moved every entry up by 1.\<close>

definition shift_up :: feature_mechanisms where
  "shift_up name = (if name = ''mbm''
     then Some (\<lambda>eps rg xm. map (map (\<lambda>v. fl_add v (Fin 1))) xm) else None)"

text \<open>The world of one invocation in which \<open>torch.rand\<close> returns \<open>wm\<close>.\<close>

definition ex_env :: "matrix \<Rightarrow> env" where
  "ex_env wm = \<lparr>torch_rand = (\<lambda>i k. wm), supported_feature_mechanisms = shift_up\<rparr>"

definition ex_fp :: FeaturePerturbation where
  "ex_fp = FeaturePerturbation_init ''mbm'' (Some 1) (Some 2) None"

section \<open>Observations and a small dataset for NodeSplit\<close>

text \<open>The number of nodes a mask selects.\<close>

definition count_true :: "bool list \<Rightarrow> nat" where
  "count_true m = length (filter id m)"

text \<open>Five nodes, node 1 without a label; an outcome of \<open>randperm\<close>.\<close>

definition ex_store5 :: store where
  "ex_store5 = \<lparr>ftensors = [], ltensors = [[0, - 1, 1, 0, 1]]\<rparr>"

definition ex_data5 :: data where
  "ex_data5 = \<lparr>data_x = 0, x_raw = None, data_y = Some 0, y_raw = None,
     train_mask = [], val_mask = [], test_mask = [],
     adj_t = [[], [], [], [], []],
     edge_index = ([], []), num_classes = 2, num_nodes = 5\<rparr>"

definition ex_perm :: "nat \<Rightarrow> nat list" where
  "ex_perm n = (if n = 4 then [3, 1, 0, 2] else [0..<n])"

text \<open>Ten nodes, all of them with a label.\<close>

definition ex_store10 :: store where
  "ex_store10 = \<lparr>ftensors = [], ltensors = [[0, 1, 0, 1, 0, 1, 0, 1, 0, 1]]\<rparr>"

definition ex_data10 :: data where
  "ex_data10 = \<lparr>data_x = 0, x_raw = None, data_y = Some 0, y_raw = None,
     train_mask = [], val_mask = [], test_mask = [],
     adj_t = [[], [], [], [], [], [], [], [], [], []],
     edge_index = ([], []), num_classes = 2, num_nodes = 10\<rparr>"

section \<open>Notions used in the statement about Normalize\<close>

text \<open>An attribute matrix with finite entries, given by its real values.\<close>

definition fin_matrix :: "real list list \<Rightarrow> matrix" where
  "fin_matrix xr = map (map Fin) xr"

definition rcolumn :: "real list list \<Rightarrow> nat \<Rightarrow> real list" where
  "rcolumn xr j = map (\<lambda>r. r ! j) xr"

definition rcolumns :: "real list list \<Rightarrow> real list list" where
  "rcolumns xr = map (rcolumn xr) [0..<(case xr of [] \<Rightarrow> 0 | r # _ \<Rightarrow> length r)]"

text \<open>The min-max rescaling of a column into the interval from \<open>low\<close> to \<open>high\<close>.\<close>

definition rescale :: "real \<Rightarrow> real \<Rightarrow> real list \<Rightarrow> real list" where
  "rescale low high c =
     map (\<lambda>v. (v - Min (set c)) * (high - low) / (Max (set c) - Min (set c)) + low) c"

section \<open>Notions and a scenario for ErrorEstimation\<close>

text \<open>A row of \<open>D\<close> finite entries.\<close>

definition finite_row :: "nat \<Rightarrow> fl list \<Rightarrow> bool" where
  "finite_row D r = (length r = D \<and> (\<forall>v \<in> set r. v \<noteq> PInf \<and> v \<noteq> NInf \<and> v \<noteq> NaN))"

text \<open>The cycle on five nodes, every edge in both directions.\<close>

definition cycle5 :: "nat list \<times> nat list" where
  "cycle5 = ([0, 1, 1, 2, 2, 3, 3, 4, 4, 0], [1, 0, 2, 1, 3, 2, 4, 3, 0, 4])"

text \<open>
  A convolution to run the scenario with: every node adds the attributes of its
  neighbours to its own. (The statements below hold for every \<open>conv\<close>.)
\<close>

definition sum_conv :: "matrix \<Rightarrow> nat list \<times> nat list \<Rightarrow> matrix" where
  "sum_conv xm e =
     map (\<lambda>i. foldl vec_add (xm ! i)
                 (map (\<lambda>(s, t). xm ! s) (filter (\<lambda>(s, t). t = i) (zip (fst e) (snd e)))))
         [0..<length xm]"

definition ex_cycle_x :: "real list list" where
  "ex_cycle_x = [[0, 1, 2], [1, 1, 2], [2, 1, 2], [3, 1, 2], [4, 1, 2]]"

definition ex_cycle_store :: store where
  "ex_cycle_store = \<lparr>ftensors = [fin_matrix ex_cycle_x], ltensors = [[0, 1, 0, 1, 0]]\<rparr>"

definition ex_cycle_data :: data where
  "ex_cycle_data = \<lparr>data_x = 0, x_raw = None, data_y = Some 0, y_raw = None,
     train_mask = [], val_mask = [], test_mask = [],
     adj_t = [[(1, Fin 1), (4, Fin 1)], [(0, Fin 1), (2, Fin 1)], [(1, Fin 1), (3, Fin 1)],
              [(2, Fin 1), (4, Fin 1)], [(0, Fin 1), (3, Fin 1)]],
     edge_index = cycle5, num_classes = 2, num_nodes = 5\<rparr>"

section \<open>Properties of LabelPerturbation\<close>

lemmas lp_eval = LabelPerturbation_call_def restore_y_def lalloc_def perturb_def perturb_mask_def
  masked_select_def sparse_select_def renumber_def D_inv_of_def row_sum_def fl_sum_def
  argmax_def spmm_def diag_mm_def vec_add_def vec_scale_def num_features_def
  one_hot_def truthful_def lying_def ex_store_def ex_data_def ex_lp_def Let_def

lemma masked_assign_length: "length (masked_assign vs ms ns) = length vs"
  by (induction vs ms ns rule: masked_assign.induct) auto

lemma masked_assign_nth_False:
  "i < length vs \<Longrightarrow> i < length ms \<Longrightarrow> \<not> ms ! i \<Longrightarrow> masked_assign vs ms ns ! i = vs ! i"
proof (induction vs ms ns arbitrary: i rule: masked_assign.induct)
  case (1 v vs ms n ns)
  then show ?case by (cases i) auto
next
  case (2 v vs ms ns)
  then show ?case by (cases i) auto
qed auto

lemma LP_call_cases:
  assumes "epsilon_y self = Some eps"
    and "LabelPerturbation_call mechs self (st, d) = Inr (st', d')"
  obtains ya st1 d1 a new where
    "data_y d = Some ya" "restore_y (st, d) ya = (st1, d1)" "data_y d1 = Some a"
    "d' = d1"
    "st' = st1\<lparr>ltensors := (ltensors st1)[a := masked_assign (ltensors st1 ! a) (perturb_mask d1) new]\<rparr>"
    "length (perturb_mask d1) = length (ltensors st1 ! a)"
  using assms unfolding LabelPerturbation_call_def
  by (auto simp: Let_def split: option.splits prod.splits if_splits sum.splits)

lemma restore_y_inv:
  assumes "snapshot_inv y0 (st, d)" and "data_y d = Some ya"
    and "restore_y (st, d) ya = (st1, d1)"
  shows "\<exists>a r. data_y d1 = Some a \<and> y_raw d1 = Some r \<and> a < length (ltensors st1)
           \<and> r < length (ltensors st1) \<and> r \<noteq> a
           \<and> ltensors st1 ! a = y0 \<and> ltensors st1 ! r = y0"
  using assms unfolding snapshot_inv_def restore_y_def lalloc_def
  by (auto simp: Let_def nth_append split: option.splits)

lemma LP_call_inv:
  assumes "epsilon_y self = Some eps" and "snapshot_inv y0 (st, d)"
    and "LabelPerturbation_call mechs self (st, d) = Inr (st', d')"
  shows "snapshot_inv y0 (st', d') \<and> y_raw d' \<noteq> None"
proof -
  from assms(1,3) obtain ya st1 d1 a new where
    h: "data_y d = Some ya" "restore_y (st, d) ya = (st1, d1)" "data_y d1 = Some a" "d' = d1"
    "st' = st1\<lparr>ltensors := (ltensors st1)[a := masked_assign (ltensors st1 ! a) (perturb_mask d1) new]\<rparr>"
    by (rule LP_call_cases)
  from restore_y_inv[OF assms(2) h(1) h(2)] h(3) obtain r where
    "y_raw d1 = Some r" "a < length (ltensors st1)" "r < length (ltensors st1)" "r \<noteq> a"
    "ltensors st1 ! r = y0" by auto
  with h show ?thesis by (simp add: snapshot_inv_def)
qed

lemma LP_calls_inv:
  assumes "epsilon_y self = Some eps"
  shows "snapshot_inv y0 sd \<Longrightarrow> LabelPerturbation_calls ms self sd = Inr sd'
           \<Longrightarrow> snapshot_inv y0 sd' \<and> (ms \<noteq> [] \<longrightarrow> y_raw (snd sd') \<noteq> None)"
proof (induction ms arbitrary: sd)
  case Nil
  then show ?case by simp
next
  case (Cons m ms)
  from Cons.prems(2) obtain sd1 where
    c: "LabelPerturbation_call m self sd = Inr sd1" and
    r: "LabelPerturbation_calls ms self sd1 = Inr sd'"
    by (auto split: sum.splits)
  from LP_call_inv[OF assms, of y0 "fst sd" "snd sd" m "fst sd1" "snd sd1"] Cons.prems(1) c
  have i1: "snapshot_inv y0 sd1" and n1: "y_raw (snd sd1) \<noteq> None" by auto
  from Cons.IH[OF i1 r] have i2: "snapshot_inv y0 sd'" and
    "ms \<noteq> [] \<longrightarrow> y_raw (snd sd') \<noteq> None" by auto
  moreover have "ms = [] \<Longrightarrow> sd' = sd1" using r by simp
  ultimately show ?case using n1 by (cases ms) auto
qed

text \<open>
  Claim C10. The label snapshot \<open>y_raw\<close> is a tensor of its own (a clone), and the labels
  are restored from it by a clone: after any number of invocations with \<open>epsilon_y\<close>
  set, starting from a dataset without a snapshot whose labels are \<open>y0\<close>, the snapshot is
  a tensor other than the one the labels are written into and still holds \<open>y0\<close>, and the
  labels restored at the start of the next invocation are exactly \<open>y0\<close>.
\<close>

theorem y_raw_independent_copy:
  assumes "epsilon_y self = Some eps"
    and "y_raw d0 = None" and "data_y d0 = Some a0" and "a0 < length (ltensors st0)"
    and "LabelPerturbation_calls ms self (st0, d0) = Inr (st, d)"
  shows "\<exists>a. data_y d = Some a \<and>
          (case restore_y (st, d) a of (st', d') \<Rightarrow>
             \<exists>a' r. data_y d' = Some a' \<and> y_raw d' = Some r \<and> r \<noteq> a'
                \<and> ltensors st' ! a' = ltensors st0 ! a0
                \<and> ltensors st' ! r = ltensors st0 ! a0)
          \<and> (ms \<noteq> [] \<longrightarrow> (\<exists>r. y_raw d = Some r \<and> r \<noteq> a
                \<and> ltensors st ! r = ltensors st0 ! a0))"
proof -
  have i0: "snapshot_inv (ltensors st0 ! a0) (st0, d0)"
    using assms(2-4) by (simp add: snapshot_inv_def)
  from LP_calls_inv[OF assms(1) i0 assms(5)]
  have i: "snapshot_inv (ltensors st0 ! a0) (st, d)" and n: "ms \<noteq> [] \<longrightarrow> y_raw d \<noteq> None"
    by auto
  from i obtain a where a: "data_y d = Some a" by (auto simp: snapshot_inv_def split: option.splits)
  obtain st' d' where r: "restore_y (st, d) a = (st', d')" by (cases "restore_y (st, d) a")
  from restore_y_inv[OF i a r] have
    "\<exists>a' r. data_y d' = Some a' \<and> y_raw d' = Some r \<and> r \<noteq> a'
                \<and> ltensors st' ! a' = ltensors st0 ! a0
                \<and> ltensors st' ! r = ltensors st0 ! a0" by blast
  moreover have "ms \<noteq> [] \<longrightarrow> (\<exists>r. y_raw d = Some r \<and> r \<noteq> a \<and> ltensors st ! r = ltensors st0 ! a0)"
    using i n a by (auto simp: snapshot_inv_def split: option.splits)
  ultimately show ?thesis using a r by simp
qed

lemma ex_two_calls:
  "LabelPerturbation_calls [lying, truthful] ex_lp (ex_store, ex_data)
     = Inr (\<lparr>ftensors = [[[Fin 0], [Fin 1], [Fin 2]]], ltensors = [[0, 1, 1], [1, 0, 1], [1, 0, 1]]\<rparr>,
            ex_data\<lparr>data_y := Some 2, y_raw := Some 1\<rparr>)"
  by (simp add: lp_eval upt_rec)

theorem y_raw_independent_copy_witness:
  "epsilon_y ex_lp = Some 1 \<and> y_raw ex_data = None \<and> data_y ex_data = Some 0
   \<and> 0 < length (ltensors ex_store)
   \<and> LabelPerturbation_calls [lying, truthful] ex_lp (ex_store, ex_data)
       = Inr (\<lparr>ftensors = [[[Fin 0], [Fin 1], [Fin 2]]], ltensors = [[0, 1, 1], [1, 0, 1], [1, 0, 1]]\<rparr>,
              ex_data\<lparr>data_y := Some 2, y_raw := Some 1\<rparr>)
   \<and> y_raw (ex_data\<lparr>data_y := Some 2, y_raw := Some 1\<rparr>) = Some 1
   \<and> [[0, 1, 1], [1, 0, 1], [1, 0, 1]] ! 1 = ltensors ex_store ! 0"
proof -
  have h1: "epsilon_y ex_lp = Some 1" by (simp add: ex_lp_def)
  have h2: "y_raw ex_data = None" by (simp add: ex_data_def)
  have h3: "data_y ex_data = Some 0" by (simp add: ex_data_def)
  have h4: "0 < length (ltensors ex_store)" by (simp add: ex_store_def)
  note c = y_raw_independent_copy[OF h1 h2 h3 h4 ex_two_calls]
  show ?thesis using h1 h2 h3 h4 ex_two_calls c by (simp add: ex_store_def)
qed

text \<open>
  Claim C6, as amended. With \<open>epsilon_y\<close> set, the labels at every index outside
  \<open>train \<union> val\<close> after the call are those of the snapshot \<open>y_raw\<close> when the dataset
  has one, and the labels before the call when it has none (the first invocation); the
  masks are unchanged and only entries inside \<open>train \<union> val\<close> receive perturbed labels.
\<close>

theorem labels_outside_mask_from_snapshot:
  assumes "epsilon_y self = Some eps"
    and "data_y d = Some a" and "a < length (ltensors st)"
    and "case y_raw d of None \<Rightarrow> True | Some r \<Rightarrow> r < length (ltensors st)"
    and "LabelPerturbation_call mechs self (st, d) = Inr (st', d')"
  shows "perturb_mask d' = perturb_mask d \<and> length (labels (st', d')) = length (perturb_mask d)
         \<and> (\<forall>i < length (perturb_mask d). \<not> perturb_mask d ! i \<longrightarrow>
               labels (st', d') ! i =
                 (case y_raw d of None \<Rightarrow> labels (st, d) ! i | Some r \<Rightarrow> ltensors st ! r ! i))"
proof -
  from assms(1,5) obtain ya st1 d1 a1 new where
    h: "data_y d = Some ya" "restore_y (st, d) ya = (st1, d1)" "data_y d1 = Some a1" "d' = d1"
    "st' = st1\<lparr>ltensors := (ltensors st1)[a1 := masked_assign (ltensors st1 ! a1) (perturb_mask d1) new]\<rparr>"
    "length (perturb_mask d1) = length (ltensors st1 ! a1)"
    by (rule LP_call_cases)
  have ya: "ya = a" using h(1) assms(2) by simp
  have pm: "perturb_mask d1 = perturb_mask d"
    using h(2) by (auto simp: restore_y_def lalloc_def perturb_mask_def Let_def split: option.splits)
  have a1: "a1 < length (ltensors st1)"
    using h(2,3) assms(2,3) ya
    by (auto simp: restore_y_def lalloc_def Let_def split: option.splits)
  have src: "ltensors st1 ! a1 = (case y_raw d of None \<Rightarrow> ltensors st ! a | Some r \<Rightarrow> ltensors st ! r)"
    using h(2,3) assms(2,3,4) ya
    by (auto simp: restore_y_def lalloc_def Let_def nth_append split: option.splits)
  have lab: "labels (st', d') = masked_assign (ltensors st1 ! a1) (perturb_mask d) new"
    using h(3,4,5) a1 pm by (simp add: labels_def)
  have len: "length (labels (st', d')) = length (perturb_mask d)"
    using lab h(6) pm by (simp add: masked_assign_length)
  have "\<forall>i < length (perturb_mask d). \<not> perturb_mask d ! i \<longrightarrow>
          labels (st', d') ! i =
            (case y_raw d of None \<Rightarrow> labels (st, d) ! i | Some r \<Rightarrow> ltensors st ! r ! i)"
  proof (intro allI impI)
    fix i assume i: "i < length (perturb_mask d)" and f: "\<not> perturb_mask d ! i"
    have "labels (st', d') ! i = (ltensors st1 ! a1) ! i"
      using lab i f h(6) pm by (simp add: masked_assign_nth_False)
    then show "labels (st', d') ! i =
            (case y_raw d of None \<Rightarrow> labels (st, d) ! i | Some r \<Rightarrow> ltensors st ! r ! i)"
      using src assms(2) by (simp add: labels_def split: option.splits)
  qed
  then show ?thesis using len pm h(4) by simp
qed

text \<open>
  The dataset after a first invocation on the small dataset (node 0 in train, its label
  reported as 0 instead of 1), split anew so that node 0 is a test node and node 2 the
  only train node.
\<close>

lemma ex_second_call:
  "LabelPerturbation_call truthful ex_lp
        (\<lparr>ftensors = [[[Fin 0], [Fin 1], [Fin 2]]], ltensors = [[0, 1, 1], [1, 0, 1]]\<rparr>,
         ex_data\<lparr>y_raw := Some 1, train_mask := [False, False, True],
                  val_mask := [False, False, False], test_mask := [True, False, False]\<rparr>)
     = Inr (\<lparr>ftensors = [[[Fin 0], [Fin 1], [Fin 2]]],
              ltensors = [[0, 1, 1], [1, 0, 1], [1, 0, 1]]\<rparr>,
            ex_data\<lparr>data_y := Some 2, y_raw := Some 1, train_mask := [False, False, True],
                     val_mask := [False, False, False], test_mask := [True, False, False]\<rparr>)"
  by (simp add: lp_eval upt_rec)

theorem labels_outside_mask_from_snapshot_witness:
  "epsilon_y ex_lp = Some 1
   \<and> labels (\<lparr>ftensors = [[[Fin 0], [Fin 1], [Fin 2]]],
                ltensors = [[0, 1, 1], [1, 0, 1], [1, 0, 1]]\<rparr>,
              ex_data\<lparr>data_y := Some 2, y_raw := Some 1, train_mask := [False, False, True],
                       val_mask := [False, False, False], test_mask := [True, False, False]\<rparr>) ! 1
       = ltensors \<lparr>ftensors = [[[Fin 0], [Fin 1], [Fin 2]]], ltensors = [[0, 1, 1], [1, 0, 1]]\<rparr> ! 1 ! 1"
proof -
  let ?st = "\<lparr>ftensors = [[[Fin 0], [Fin 1], [Fin 2]]], ltensors = [[0, 1, 1], [1, 0, 1]]\<rparr>"
  let ?d = "ex_data\<lparr>y_raw := Some 1, train_mask := [False, False, True],
                  val_mask := [False, False, False], test_mask := [True, False, False]\<rparr>"
  have h1: "epsilon_y ex_lp = Some 1" by (simp add: ex_lp_def)
  have h2: "data_y ?d = Some 0" by (simp add: ex_data_def)
  have h3: "0 < length (ltensors ?st)" by simp
  have h4: "case y_raw ?d of None \<Rightarrow> True | Some r \<Rightarrow> r < length (ltensors ?st)" by simp
  note c = labels_outside_mask_from_snapshot[OF h1 h2 h3 h4 ex_second_call]
  have m: "perturb_mask ?d = [False, False, True]" by (simp add: perturb_mask_def ex_data_def)
  from c m have "labels (\<lparr>ftensors = [[[Fin 0], [Fin 1], [Fin 2]]],
                ltensors = [[0, 1, 1], [1, 0, 1], [1, 0, 1]]\<rparr>,
              ex_data\<lparr>data_y := Some 2, y_raw := Some 1, train_mask := [False, False, True],
                       val_mask := [False, False, False], test_mask := [True, False, False]\<rparr>) ! 1
       = (case y_raw ?d of None \<Rightarrow> labels (?st, ?d) ! 1 | Some r \<Rightarrow> ltensors ?st ! r ! 1)"
    by simp
  then show ?thesis using h1 by simp
qed

text \<open>
  Claim C6 as stated fails at that second invocation: node 0 is outside \<open>train \<union> val\<close>
  (it is a test node), its label is 0 before the call and 1 after it.
\<close>

theorem labels_outside_mask_counterexample:
  "LabelPerturbation_call lying ex_lp (ex_store, ex_data)
     = Inr (\<lparr>ftensors = [[[Fin 0], [Fin 1], [Fin 2]]], ltensors = [[0, 1, 1], [1, 0, 1]]\<rparr>,
            ex_data\<lparr>y_raw := Some 1\<rparr>)
   \<and> LabelPerturbation_call truthful ex_lp
        (\<lparr>ftensors = [[[Fin 0], [Fin 1], [Fin 2]]], ltensors = [[0, 1, 1], [1, 0, 1]]\<rparr>,
         ex_data\<lparr>y_raw := Some 1, train_mask := [False, False, True],
                  val_mask := [False, False, False], test_mask := [True, False, False]\<rparr>)
     = Inr (\<lparr>ftensors = [[[Fin 0], [Fin 1], [Fin 2]]],
              ltensors = [[0, 1, 1], [1, 0, 1], [1, 0, 1]]\<rparr>,
            ex_data\<lparr>data_y := Some 2, y_raw := Some 1, train_mask := [False, False, True],
                     val_mask := [False, False, False], test_mask := [True, False, False]\<rparr>)
   \<and> \<not> perturb_mask (ex_data\<lparr>y_raw := Some 1, train_mask := [False, False, True],
                                val_mask := [False, False, False],
                                test_mask := [True, False, False]\<rparr>) ! 0
   \<and> labels (\<lparr>ftensors = [[[Fin 0], [Fin 1], [Fin 2]]], ltensors = [[0, 1, 1], [1, 0, 1]]\<rparr>,
              ex_data\<lparr>y_raw := Some 1, train_mask := [False, False, True],
                       val_mask := [False, False, False], test_mask := [True, False, False]\<rparr>) ! 0 = 0
   \<and> labels (\<lparr>ftensors = [[[Fin 0], [Fin 1], [Fin 2]]],
                ltensors = [[0, 1, 1], [1, 0, 1], [1, 0, 1]]\<rparr>,
              ex_data\<lparr>data_y := Some 2, y_raw := Some 1, train_mask := [False, False, True],
                       val_mask := [False, False, False], test_mask := [True, False, False]\<rparr>) ! 0 = 1"
  by (simp add: lp_eval labels_def upt_rec)

text \<open>
  Claim C3 at a dataset with an isolated train node (node 0), one propagation step and
  a mechanism that reports every true class: the degree of node 0 in the induced
  subgraph is 0, \<open>1 / deg\<close> is formed without a guard and is infinite there, the
  propagated row of node 0 is NaN and decodes to class 0, although its label is 1.
\<close>

theorem isolated_node_divides_by_zero:
  "map row_sum (sparse_select (adj_t ex_data) [True, True, True]) = [Fin 0, Fin 1, Fin 1]
   \<and> D_inv_of (map row_sum (sparse_select (adj_t ex_data) [True, True, True]))
       = [PInf, Fin 1, Fin 1]
   \<and> lp_loop 1 (sparse_select (adj_t ex_data) [True, True, True]) [PInf, Fin 1, Fin 1]
        [[Fin 0, Fin 1], [Fin 1, Fin 0], [Fin 0, Fin 1]]
       = [[NaN, NaN], [Fin 0, Fin 1], [Fin 1, Fin 0]]
   \<and> LabelPerturbation_call truthful (ex_lp\<lparr>lp_step := 1\<rparr>)
        (ex_store, ex_data\<lparr>train_mask := [True, True, True], val_mask := [False, False, False],
                            test_mask := [False, False, False]\<rparr>)
       = Inr (\<lparr>ftensors = [[[Fin 0], [Fin 1], [Fin 2]]], ltensors = [[0, 1, 0], [1, 0, 1]]\<rparr>,
              ex_data\<lparr>y_raw := Some 1, train_mask := [True, True, True],
                       val_mask := [False, False, False], test_mask := [False, False, False]\<rparr>)"
  by (simp add: lp_eval upt_rec)

theorem isolated_node_divides_by_zero_witness:
  "D_inv_of (map row_sum (sparse_select (adj_t ex_data) [True, True, True])) ! 0 = PInf
   \<and> labels (ex_store, ex_data) ! 0 = 1
   \<and> (case LabelPerturbation_call truthful (ex_lp\<lparr>lp_step := 1\<rparr>)
        (ex_store, ex_data\<lparr>train_mask := [True, True, True], val_mask := [False, False, False],
                            test_mask := [False, False, False]\<rparr>) of
         Inl e \<Rightarrow> False | Inr sd \<Rightarrow> labels sd ! 0 = 0)"
proof -
  note c = isolated_node_divides_by_zero
  from c have d: "D_inv_of (map row_sum (sparse_select (adj_t ex_data) [True, True, True]))
       = [PInf, Fin 1, Fin 1]" by blast
  from c have r: "LabelPerturbation_call truthful (ex_lp\<lparr>lp_step := 1\<rparr>)
        (ex_store, ex_data\<lparr>train_mask := [True, True, True], val_mask := [False, False, False],
                            test_mask := [False, False, False]\<rparr>)
       = Inr (\<lparr>ftensors = [[[Fin 0], [Fin 1], [Fin 2]]], ltensors = [[0, 1, 0], [1, 0, 1]]\<rparr>,
              ex_data\<lparr>y_raw := Some 1, train_mask := [True, True, True],
                       val_mask := [False, False, False], test_mask := [False, False, False]\<rparr>)"
    by blast
  have l: "labels (ex_store, ex_data) ! 0 = 1" by (simp add: labels_def ex_data_def ex_store_def)
  show ?thesis unfolding d r using l by (simp add: labels_def ex_data_def)
qed

section \<open>Properties of FeaturePerturbation\<close>

lemmas fp_eval = FeaturePerturbation_call_def prepare_def restore_x_def freeze_range_def
  project_x_def RandomizedProjection_call_def RandomizedProjection_init_def matmul_def
  columns_def column_def dot_def fl_sum_def falloc_def tensor_min_def tensor_max_def
  fl_min_def fl_max_def num_features_def FeaturePerturbation_init_def
  shift_up_def ex_env_def ex_fp_def ex_store_def ex_data_def Let_def

lemma project_x_result:
  assumes "x_refs_ok (st, d)" and "project_x e self (st, d) = Inr (st2, d2)"
  shows "x_refs_ok (st2, d2) \<and> x_raw d2 = x_raw d
         \<and> (\<forall>a < length (ftensors st). ftensors st2 ! a = ftensors st ! a)
         \<and> length (ftensors st) \<le> length (ftensors st2)
         \<and> projected e self (attributes (st, d)) = Inr (attributes (st2, d2))"
  using assms
  unfolding project_x_def projected_def RandomizedProjection_call_def RandomizedProjection_init_def
    falloc_def x_refs_ok_def attributes_def
  by (auto simp: Let_def nth_append split: option.splits if_splits sum.splits)

lemma freeze_range_result:
  assumes "freeze_range self xm = Inr self1"
  shows "reduce_dim self1 = reduce_dim self \<and> mechanism_x self1 = mechanism_x self
         \<and> epsilon_x self1 = epsilon_x self
         \<and> (case input_range self of
               Some rg \<Rightarrow> input_range self1 = Some rg
             | None \<Rightarrow> (\<exists>lo hi. tensor_min xm = Inr lo \<and> tensor_max xm = Inr hi
                          \<and> input_range self1 = Some (lo, hi)))"
  using assms unfolding freeze_range_def
  by (auto split: option.splits sum.splits)

lemma prepare_result:
  assumes "x_refs_ok (st, d)" and "prepare e self (st, d) = Inr (self1, st2, d2)"
  shows "x_refs_ok (st2, d2) \<and> pristine (st2, d2) = pristine (st, d) \<and> x_raw d2 \<noteq> None
         \<and> (x_raw d = None \<longrightarrow> x_raw d2 = Some (data_x d))
         \<and> (x_raw d \<noteq> None \<longrightarrow> x_raw d2 = x_raw d)
         \<and> projected e self (pristine (st, d)) = Inr (attributes (st2, d2))
         \<and> reduce_dim self1 = reduce_dim self \<and> mechanism_x self1 = mechanism_x self
         \<and> epsilon_x self1 = epsilon_x self
         \<and> (case input_range self of
               Some rg \<Rightarrow> input_range self1 = Some rg
             | None \<Rightarrow> (\<exists>lo hi. tensor_min (pristine (st, d)) = Inr lo
                          \<and> tensor_max (pristine (st, d)) = Inr hi
                          \<and> input_range self1 = Some (lo, hi)))"
proof -
  let ?d1 = "restore_x d"
  from assms(2) have
    f: "freeze_range self (ftensors st ! data_x ?d1) = Inr self1" and
    p: "project_x e self1 (st, ?d1) = Inr (st2, d2)"
    unfolding prepare_def by (auto simp: Let_def split: sum.splits)
  have ok1: "x_refs_ok (st, ?d1)"
    using assms(1) unfolding x_refs_ok_def restore_x_def by (auto split: option.splits)
  have at1: "attributes (st, ?d1) = pristine (st, d)"
    unfolding attributes_def pristine_def restore_x_def by (auto split: option.splits)
  have raw1: "x_raw ?d1 \<noteq> None" "x_raw d = None \<longrightarrow> x_raw ?d1 = Some (data_x d)"
    "x_raw d \<noteq> None \<longrightarrow> x_raw ?d1 = x_raw d" "pristine (st, ?d1) = pristine (st, d)"
    unfolding restore_x_def pristine_def by (auto split: option.splits)
  note fr = freeze_range_result[OF f]
  note pr = project_x_result[OF ok1 p]
  have rd: "reduce_dim self1 = reduce_dim self" using fr by simp
  have pj: "projected e self (pristine (st, d)) = Inr (attributes (st2, d2))"
    using pr at1 rd unfolding projected_def by (auto split: option.splits)
  have pris2: "pristine (st2, d2) = pristine (st, d)"
    using pr raw1 ok1 unfolding pristine_def x_refs_ok_def by (auto split: option.splits)
  have rg: "case input_range self of
               Some rg \<Rightarrow> input_range self1 = Some rg
             | None \<Rightarrow> (\<exists>lo hi. tensor_min (pristine (st, d)) = Inr lo
                          \<and> tensor_max (pristine (st, d)) = Inr hi
                          \<and> input_range self1 = Some (lo, hi))"
    using fr at1 unfolding attributes_def by (auto split: option.splits)
  show ?thesis using pr raw1 fr pj pris2 rg by simp
qed

lemma FP_call_result:
  assumes "epsilon_x self = Some eps" and "x_refs_ok (st, d)"
    and "FeaturePerturbation_call e self (st, d) = Inr (self', st', d')"
  shows "x_refs_ok (st', d') \<and> pristine (st', d') = pristine (st, d)
         \<and> x_raw d' = (case x_raw d of None \<Rightarrow> Some (data_x d) | Some r \<Rightarrow> Some r)
         \<and> reduce_dim self' = reduce_dim self \<and> mechanism_x self' = mechanism_x self
         \<and> epsilon_x self' = epsilon_x self
         \<and> (range_from (pristine (st, d)) self \<longrightarrow> range_from (pristine (st, d)) self')
         \<and> (\<exists>mech rg xin. supported_feature_mechanisms e (mechanism_x self) = Some mech
               \<and> input_range self' = Some rg
               \<and> (input_range self \<noteq> None \<longrightarrow> input_range self = Some rg)
               \<and> projected e self (pristine (st, d)) = Inr xin
               \<and> attributes (st', d') = mech eps rg xin)"
proof -
  from assms(1,3) obtain st2 d2 mech rg where
    p: "prepare e self (st, d) = Inr (self', st2, d2)" and
    m: "supported_feature_mechanisms e (mechanism_x self') = Some mech" and
    r: "input_range self' = Some rg" and
    s: "st' = fst (falloc st2 (mech eps rg (ftensors st2 ! data_x d2)))" and
    d: "d' = d2\<lparr>data_x := snd (falloc st2 (mech eps rg (ftensors st2 ! data_x d2)))\<rparr>"
    unfolding FeaturePerturbation_call_def
    by (auto simp: Let_def split: sum.splits option.splits prod.splits)
  note pr = prepare_result[OF assms(2) p]
  have ok: "x_refs_ok (st', d')"
    using pr s d unfolding x_refs_ok_def falloc_def by (auto split: option.splits)
  have pris: "pristine (st', d') = pristine (st, d)"
  proof -
    have "pristine (st', d') = pristine (st2, d2)"
      using pr s d unfolding pristine_def x_refs_ok_def falloc_def
      by (auto simp: nth_append split: option.splits)
    then show ?thesis using pr by simp
  qed
  have raw: "x_raw d' = (case x_raw d of None \<Rightarrow> Some (data_x d) | Some r \<Rightarrow> Some r)"
    using pr d by (auto split: option.splits)
  have at: "attributes (st', d') = mech eps rg (attributes (st2, d2))"
    using s d unfolding attributes_def falloc_def by simp
  have rf: "range_from (pristine (st, d)) self \<longrightarrow> range_from (pristine (st, d)) self'"
    using pr unfolding range_from_def by (auto split: option.splits)
  have keep: "input_range self \<noteq> None \<longrightarrow> input_range self = Some rg"
    using pr r by (auto split: option.splits)
  have "\<exists>mech rg xin. supported_feature_mechanisms e (mechanism_x self) = Some mech
               \<and> input_range self' = Some rg
               \<and> (input_range self \<noteq> None \<longrightarrow> input_range self = Some rg)
               \<and> projected e self (pristine (st, d)) = Inr xin
               \<and> attributes (st', d') = mech eps rg xin"
    using m r keep pr at by auto
  then show ?thesis using ok pris raw pr rf by simp
qed

lemma FP_calls_inv:
  "epsilon_x self = Some eps \<Longrightarrow> x_refs_ok sd
     \<Longrightarrow> FeaturePerturbation_calls es self sd = Inr (self', sd')
     \<Longrightarrow> x_refs_ok sd' \<and> pristine sd' = pristine sd
         \<and> x_raw (snd sd') = (if es = [] then x_raw (snd sd)
               else (case x_raw (snd sd) of None \<Rightarrow> Some (data_x (snd sd)) | Some r \<Rightarrow> Some r))
         \<and> reduce_dim self' = reduce_dim self \<and> mechanism_x self' = mechanism_x self
         \<and> epsilon_x self' = epsilon_x self
         \<and> (range_from (pristine sd) self \<longrightarrow> range_from (pristine sd) self')
         \<and> (input_range self \<noteq> None \<longrightarrow> input_range self' = input_range self)
         \<and> (es \<noteq> [] \<longrightarrow> input_range self' \<noteq> None)"
proof (induction es arbitrary: self sd)
  case Nil
  then show ?case by simp
next
  case (Cons e es)
  from Cons.prems(3) obtain self1 sd1 where
    c: "FeaturePerturbation_call e self sd = Inr (self1, sd1)" and
    r: "FeaturePerturbation_calls es self1 sd1 = Inr (self', sd')"
    by (auto split: sum.splits)
  from FP_call_result[OF Cons.prems(1), of "fst sd" "snd sd" e self1 "fst sd1" "snd sd1"]
    Cons.prems(2) c
  have s1: "x_refs_ok sd1" "pristine sd1 = pristine sd"
    "x_raw (snd sd1) = (case x_raw (snd sd) of None \<Rightarrow> Some (data_x (snd sd)) | Some r \<Rightarrow> Some r)"
    "reduce_dim self1 = reduce_dim self" "mechanism_x self1 = mechanism_x self"
    "epsilon_x self1 = epsilon_x self"
    "range_from (pristine sd) self \<longrightarrow> range_from (pristine sd) self1"
    "input_range self \<noteq> None \<longrightarrow> input_range self1 = input_range self"
    "input_range self1 \<noteq> None"
    by auto
  have e1: "epsilon_x self1 = Some eps" using s1 Cons.prems(1) by simp
  note ih = Cons.IH[OF e1 s1(1) r]
  have raw: "x_raw (snd sd') = (case x_raw (snd sd) of None \<Rightarrow> Some (data_x (snd sd)) | Some r \<Rightarrow> Some r)"
    using ih s1(3) by (auto split: option.splits if_splits)
  show ?case using ih s1 raw by simp
qed

lemma projected_cong: "reduce_dim a = reduce_dim b \<Longrightarrow> projected e a xm = projected e b xm"
  by (simp add: projected_def)

lemma ex_fp_prepare_first:
  "prepare (ex_env [[Fin 1, Fin 2]]) ex_fp (ex_store, ex_data)
     = Inr (ex_fp\<lparr>input_range := Some (Fin 0, Fin 2)\<rparr>,
            \<lparr>ftensors = [[[Fin 0], [Fin 1], [Fin 2]], [[Fin 0, Fin 0], [Fin 1, Fin 2], [Fin 2, Fin 4]]],
             ltensors = [[1, 0, 1]]\<rparr>,
            ex_data\<lparr>data_x := 1, x_raw := Some 0\<rparr>)"
  by (simp add: fp_eval upt_rec)

lemma ex_fp_call_first:
  "FeaturePerturbation_call (ex_env [[Fin 1, Fin 2]]) ex_fp (ex_store, ex_data)
     = Inr (ex_fp\<lparr>input_range := Some (Fin 0, Fin 2)\<rparr>,
            \<lparr>ftensors = [[[Fin 0], [Fin 1], [Fin 2]], [[Fin 0, Fin 0], [Fin 1, Fin 2], [Fin 2, Fin 4]],
                         [[Fin 1, Fin 1], [Fin 2, Fin 3], [Fin 3, Fin 5]]],
             ltensors = [[1, 0, 1]]\<rparr>,
            ex_data\<lparr>data_x := 2, x_raw := Some 0\<rparr>)"
  by (simp add: fp_eval upt_rec)

lemma ex_fp_calls_first:
  "FeaturePerturbation_calls [ex_env [[Fin 1, Fin 2]]] ex_fp (ex_store, ex_data)
     = Inr (ex_fp\<lparr>input_range := Some (Fin 0, Fin 2)\<rparr>,
            \<lparr>ftensors = [[[Fin 0], [Fin 1], [Fin 2]], [[Fin 0, Fin 0], [Fin 1, Fin 2], [Fin 2, Fin 4]],
                         [[Fin 1, Fin 1], [Fin 2, Fin 3], [Fin 3, Fin 5]]],
             ltensors = [[1, 0, 1]]\<rparr>,
            ex_data\<lparr>data_x := 2, x_raw := Some 0\<rparr>)"
  by (simp add: ex_fp_call_first)

lemma ex_fp_prepare_second:
  "prepare (ex_env wm) (ex_fp\<lparr>input_range := Some (Fin 0, Fin 2)\<rparr>)
            (\<lparr>ftensors = [[[Fin 0], [Fin 1], [Fin 2]], [[Fin 0, Fin 0], [Fin 1, Fin 2], [Fin 2, Fin 4]],
                         [[Fin 1, Fin 1], [Fin 2, Fin 3], [Fin 3, Fin 5]]],
             ltensors = [[1, 0, 1]]\<rparr>,
            ex_data\<lparr>data_x := 2, x_raw := Some 0\<rparr>)
     = (case matmul [[Fin 0], [Fin 1], [Fin 2]] wm of
          Inl err \<Rightarrow> Inl err
        | Inr m \<Rightarrow> Inr (ex_fp\<lparr>input_range := Some (Fin 0, Fin 2)\<rparr>,
            \<lparr>ftensors = [[[Fin 0], [Fin 1], [Fin 2]], [[Fin 0, Fin 0], [Fin 1, Fin 2], [Fin 2, Fin 4]],
                         [[Fin 1, Fin 1], [Fin 2, Fin 3], [Fin 3, Fin 5]], m],
             ltensors = [[1, 0, 1]]\<rparr>,
            ex_data\<lparr>data_x := 3, x_raw := Some 0\<rparr>))"
  by (simp add: prepare_def restore_x_def freeze_range_def project_x_def
      RandomizedProjection_call_def RandomizedProjection_init_def falloc_def
      FeaturePerturbation_init_def ex_env_def ex_fp_def ex_data_def Let_def split: sum.splits)

lemma ex_matmul_1: "matmul [[Fin 0], [Fin 1], [Fin 2]] [[Fin 1, Fin 2]]
   = Inr [[Fin 0, Fin 0], [Fin 1, Fin 2], [Fin 2, Fin 4]]"
  by (simp add: matmul_def columns_def column_def dot_def fl_sum_def num_features_def upt_rec)

lemma ex_matmul_2: "matmul [[Fin 0], [Fin 1], [Fin 2]] [[Fin 3, Fin 4]]
   = Inr [[Fin 0, Fin 0], [Fin 3, Fin 4], [Fin 6, Fin 8]]"
  by (simp add: matmul_def columns_def column_def dot_def fl_sum_def num_features_def upt_rec)

lemma ex_fp_call_second:
  "FeaturePerturbation_call (ex_env [[Fin 3, Fin 4]]) (ex_fp\<lparr>input_range := Some (Fin 0, Fin 2)\<rparr>)
            (\<lparr>ftensors = [[[Fin 0], [Fin 1], [Fin 2]], [[Fin 0, Fin 0], [Fin 1, Fin 2], [Fin 2, Fin 4]],
                         [[Fin 1, Fin 1], [Fin 2, Fin 3], [Fin 3, Fin 5]]],
             ltensors = [[1, 0, 1]]\<rparr>,
            ex_data\<lparr>data_x := 2, x_raw := Some 0\<rparr>)
     = Inr (ex_fp\<lparr>input_range := Some (Fin 0, Fin 2)\<rparr>,
            \<lparr>ftensors = [[[Fin 0], [Fin 1], [Fin 2]], [[Fin 0, Fin 0], [Fin 1, Fin 2], [Fin 2, Fin 4]],
                         [[Fin 1, Fin 1], [Fin 2, Fin 3], [Fin 3, Fin 5]],
                         [[Fin 0, Fin 0], [Fin 3, Fin 4], [Fin 6, Fin 8]],
                         [[Fin 1, Fin 1], [Fin 4, Fin 5], [Fin 7, Fin 9]]],
             ltensors = [[1, 0, 1]]\<rparr>,
            ex_data\<lparr>data_x := 4, x_raw := Some 0\<rparr>)"
  by (simp add: fp_eval upt_rec)

lemma ex_refs_ok: "x_refs_ok (ex_store, ex_data)"
  by (simp add: x_refs_ok_def ex_store_def ex_data_def)

text \<open>
  Claim C1. With \<open>epsilon_x\<close> set and a dataset that has no snapshot yet, the first
  invocation keeps the attribute tensor as \<open>x_raw\<close>; after any number of invocations the
  snapshot is still that tensor and still holds the attributes the dataset had at the
  start, and what the next invocation hands to the mechanism is computed from these
  (they themselves, or their projection when \<open>reduce_dim\<close> is set), never from the
  output of an earlier invocation. The output is the mechanism applied to that input.
\<close>

theorem perturbation_applied_to_pristine:
  assumes "epsilon_x self = Some eps" and "x_refs_ok (st0, d0)" and "x_raw d0 = None"
    and "FeaturePerturbation_calls es self (st0, d0) = Inr (self1, st1, d1)"
    and "FeaturePerturbation_call e self1 (st1, d1) = Inr (self2, st2, d2)"
  shows "x_raw d2 = Some (data_x d0) \<and> ftensors st2 ! data_x d0 = attributes (st0, d0)
         \<and> (\<exists>mech rg xin. supported_feature_mechanisms e (mechanism_x self) = Some mech
               \<and> input_range self2 = Some rg
               \<and> projected e self (attributes (st0, d0)) = Inr xin
               \<and> attributes (st2, d2) = mech eps rg xin)"
proof -
  have p0: "pristine (st0, d0) = attributes (st0, d0)"
    using assms(3) by (simp add: pristine_def attributes_def)
  from FP_calls_inv[OF assms(1,2,4)] have
    i: "x_refs_ok (st1, d1)" "pristine (st1, d1) = pristine (st0, d0)"
       "x_raw d1 = (if es = [] then None else Some (data_x d0))"
       "reduce_dim self1 = reduce_dim self" "mechanism_x self1 = mechanism_x self"
       "epsilon_x self1 = epsilon_x self"
    using assms(3) by auto
  have e1: "epsilon_x self1 = Some eps" using i assms(1) by simp
  from FP_call_result[OF e1 i(1) assms(5)] have
    c: "pristine (st2, d2) = pristine (st1, d1)"
       "x_raw d2 = (case x_raw d1 of None \<Rightarrow> Some (data_x d1) | Some r \<Rightarrow> Some r)"
       "\<exists>mech rg xin. supported_feature_mechanisms e (mechanism_x self1) = Some mech
               \<and> input_range self2 = Some rg
               \<and> projected e self1 (pristine (st1, d1)) = Inr xin
               \<and> attributes (st2, d2) = mech eps rg xin"
    by auto
  have d1: "es = [] \<Longrightarrow> d1 = d0" using assms(4) by simp
  have raw2: "x_raw d2 = Some (data_x d0)"
    using c(2) i(3) d1 by (cases "es = []") auto
  have keep: "ftensors st2 ! data_x d0 = attributes (st0, d0)"
    using c(1) i(2) p0 raw2 by (simp add: pristine_def)
  have "\<exists>mech rg xin. supported_feature_mechanisms e (mechanism_x self) = Some mech
               \<and> input_range self2 = Some rg
               \<and> projected e self (attributes (st0, d0)) = Inr xin
               \<and> attributes (st2, d2) = mech eps rg xin"
    using c(3) i(2,4,5) p0 projected_cong[OF i(4)] by simp
  then show ?thesis using raw2 keep by simp
qed

theorem perturbation_applied_to_pristine_witness:
  "epsilon_x ex_fp = Some 1 \<and> x_refs_ok (ex_store, ex_data) \<and> x_raw ex_data = None
   \<and> x_raw (ex_data\<lparr>data_x := 4, x_raw := Some 0\<rparr>) = Some (data_x ex_data)
   \<and> [[[Fin 0], [Fin 1], [Fin 2]], [[Fin 0, Fin 0], [Fin 1, Fin 2], [Fin 2, Fin 4]],
       [[Fin 1, Fin 1], [Fin 2, Fin 3], [Fin 3, Fin 5]],
       [[Fin 0, Fin 0], [Fin 3, Fin 4], [Fin 6, Fin 8]],
       [[Fin 1, Fin 1], [Fin 4, Fin 5], [Fin 7, Fin 9]]] ! data_x ex_data
     = attributes (ex_store, ex_data)"
proof -
  have h1: "epsilon_x ex_fp = Some 1" by (simp add: ex_fp_def FeaturePerturbation_init_def)
  have h3: "x_raw ex_data = None" by (simp add: ex_data_def)
  note c = perturbation_applied_to_pristine[OF h1 ex_refs_ok h3 ex_fp_calls_first ex_fp_call_second]
  from c have "x_raw (ex_data\<lparr>data_x := 4, x_raw := Some 0\<rparr>) = Some (data_x ex_data)" by blast
  moreover from c have "ftensors \<lparr>ftensors = [[[Fin 0], [Fin 1], [Fin 2]], [[Fin 0, Fin 0], [Fin 1, Fin 2], [Fin 2, Fin 4]],
                         [[Fin 1, Fin 1], [Fin 2, Fin 3], [Fin 3, Fin 5]],
                         [[Fin 0, Fin 0], [Fin 3, Fin 4], [Fin 6, Fin 8]],
                         [[Fin 1, Fin 1], [Fin 4, Fin 5], [Fin 7, Fin 9]]],
             ltensors = [[1, 0, 1]]\<rparr> ! data_x ex_data = attributes (ex_store, ex_data)" by blast
  ultimately show ?thesis using h1 ex_refs_ok h3 by simp
qed

text \<open>
  A dataset that an earlier instance has perturbed already (its attributes are the output
  of that invocation, its snapshot the pristine matrix), handed to a new instance without
  a range.
\<close>

lemma ex_fp_call_used:
  "FeaturePerturbation_call (ex_env [[Fin 3, Fin 4]]) ex_fp
            (\<lparr>ftensors = [[[Fin 0], [Fin 1], [Fin 2]], [[Fin 0, Fin 0], [Fin 1, Fin 2], [Fin 2, Fin 4]],
                         [[Fin 1, Fin 1], [Fin 2, Fin 3], [Fin 3, Fin 5]]],
             ltensors = [[1, 0, 1]]\<rparr>,
            ex_data\<lparr>data_x := 2, x_raw := Some 0\<rparr>)
     = Inr (ex_fp\<lparr>input_range := Some (Fin 0, Fin 2)\<rparr>,
            \<lparr>ftensors = [[[Fin 0], [Fin 1], [Fin 2]], [[Fin 0, Fin 0], [Fin 1, Fin 2], [Fin 2, Fin 4]],
                         [[Fin 1, Fin 1], [Fin 2, Fin 3], [Fin 3, Fin 5]],
                         [[Fin 0, Fin 0], [Fin 3, Fin 4], [Fin 6, Fin 8]],
                         [[Fin 1, Fin 1], [Fin 4, Fin 5], [Fin 7, Fin 9]]],
             ltensors = [[1, 0, 1]]\<rparr>,
            ex_data\<lparr>data_x := 4, x_raw := Some 0\<rparr>)"
  by (simp add: fp_eval upt_rec)

text \<open>
  Claim C9. For an instance constructed without \<open>data_range\<close>, with \<open>epsilon_x\<close> set,
  and a dataset with or without a snapshot: in every invocation the range given to the
  mechanism is (min, max) of the pristine attribute matrix (the snapshot when the dataset
  has one, its attributes otherwise), computed at the first invocation after the restore
  and kept by the instance from then on.
\<close>

theorem range_frozen_from_pristine:
  assumes "epsilon_x self = Some eps" and "x_refs_ok (st0, d0)"
    and "input_range self = None"
    and "FeaturePerturbation_calls es self (st0, d0) = Inr (self1, st1, d1)"
    and "FeaturePerturbation_call e self1 (st1, d1) = Inr (self2, st2, d2)"
  shows "\<exists>lo hi mech xin. tensor_min (pristine (st0, d0)) = Inr lo
           \<and> tensor_max (pristine (st0, d0)) = Inr hi
           \<and> input_range self2 = Some (lo, hi)
           \<and> (es \<noteq> [] \<longrightarrow> input_range self1 = Some (lo, hi))
           \<and> supported_feature_mechanisms e (mechanism_x self) = Some mech
           \<and> projected e self (pristine (st0, d0)) = Inr xin
           \<and> attributes (st2, d2) = mech eps (lo, hi) xin"
proof -
  have r0: "range_from (pristine (st0, d0)) self" using assms(3) by (simp add: range_from_def)
  from FP_calls_inv[OF assms(1,2,4)] r0 have
    i: "x_refs_ok (st1, d1)" "pristine (st1, d1) = pristine (st0, d0)"
       "mechanism_x self1 = mechanism_x self" "epsilon_x self1 = epsilon_x self"
       "range_from (pristine (st0, d0)) self1" "reduce_dim self1 = reduce_dim self"
    by auto
  have e1: "epsilon_x self1 = Some eps" using i assms(1) by simp
  from FP_call_result[OF e1 i(1) assms(5)] i(2,5) obtain mech rg xin where
    c: "range_from (pristine (st0, d0)) self2"
       "supported_feature_mechanisms e (mechanism_x self1) = Some mech"
       "input_range self2 = Some rg"
       "input_range self1 \<noteq> None \<longrightarrow> input_range self1 = Some rg"
       "projected e self1 (pristine (st0, d0)) = Inr xin"
       "attributes (st2, d2) = mech eps rg xin"
    by auto
  have mm: "tensor_min (pristine (st0, d0)) = Inr (fst rg)"
           "tensor_max (pristine (st0, d0)) = Inr (snd rg)"
    using c(1,3) by (auto simp: range_from_def)
  have s1: "es \<noteq> [] \<longrightarrow> input_range self1 \<noteq> None"
    using FP_calls_inv[OF assms(1,2,4)] by simp
  have pj: "projected e self (pristine (st0, d0)) = Inr xin"
    using c(5) projected_cong[OF i(6)] by simp
  have "tensor_min (pristine (st0, d0)) = Inr (fst rg)
           \<and> tensor_max (pristine (st0, d0)) = Inr (snd rg)
           \<and> input_range self2 = Some (fst rg, snd rg)
           \<and> (es \<noteq> [] \<longrightarrow> input_range self1 = Some (fst rg, snd rg))
           \<and> supported_feature_mechanisms e (mechanism_x self) = Some mech
           \<and> projected e self (pristine (st0, d0)) = Inr xin
           \<and> attributes (st2, d2) = mech eps (fst rg, snd rg) xin"
    using mm c i(3) s1 pj by simp
  then show ?thesis by blast
qed

theorem range_frozen_from_pristine_witness:
  "epsilon_x ex_fp = Some 1 \<and> input_range ex_fp = None
   \<and> x_refs_ok (\<lparr>ftensors = [[[Fin 0], [Fin 1], [Fin 2]], [[Fin 0, Fin 0], [Fin 1, Fin 2], [Fin 2, Fin 4]],
                         [[Fin 1, Fin 1], [Fin 2, Fin 3], [Fin 3, Fin 5]]],
             ltensors = [[1, 0, 1]]\<rparr>,
            ex_data\<lparr>data_x := 2, x_raw := Some 0\<rparr>)
   \<and> tensor_min (pristine (\<lparr>ftensors = [[[Fin 0], [Fin 1], [Fin 2]], [[Fin 0, Fin 0], [Fin 1, Fin 2], [Fin 2, Fin 4]],
                         [[Fin 1, Fin 1], [Fin 2, Fin 3], [Fin 3, Fin 5]]],
             ltensors = [[1, 0, 1]]\<rparr>,
            ex_data\<lparr>data_x := 2, x_raw := Some 0\<rparr>)) = Inr (Fin 0)
   \<and> tensor_max (pristine (\<lparr>ftensors = [[[Fin 0], [Fin 1], [Fin 2]], [[Fin 0, Fin 0], [Fin 1, Fin 2], [Fin 2, Fin 4]],
                         [[Fin 1, Fin 1], [Fin 2, Fin 3], [Fin 3, Fin 5]]],
             ltensors = [[1, 0, 1]]\<rparr>,
            ex_data\<lparr>data_x := 2, x_raw := Some 0\<rparr>)) = Inr (Fin 2)
   \<and> tensor_min (attributes (\<lparr>ftensors = [[[Fin 0], [Fin 1], [Fin 2]], [[Fin 0, Fin 0], [Fin 1, Fin 2], [Fin 2, Fin 4]],
                         [[Fin 1, Fin 1], [Fin 2, Fin 3], [Fin 3, Fin 5]]],
             ltensors = [[1, 0, 1]]\<rparr>,
            ex_data\<lparr>data_x := 2, x_raw := Some 0\<rparr>)) = Inr (Fin 1)
   \<and> tensor_max (attributes (\<lparr>ftensors = [[[Fin 0], [Fin 1], [Fin 2]], [[Fin 0, Fin 0], [Fin 1, Fin 2], [Fin 2, Fin 4]],
                         [[Fin 1, Fin 1], [Fin 2, Fin 3], [Fin 3, Fin 5]]],
             ltensors = [[1, 0, 1]]\<rparr>,
            ex_data\<lparr>data_x := 2, x_raw := Some 0\<rparr>)) = Inr (Fin 5)"
proof -
  let ?st = "\<lparr>ftensors = [[[Fin 0], [Fin 1], [Fin 2]], [[Fin 0, Fin 0], [Fin 1, Fin 2], [Fin 2, Fin 4]],
                         [[Fin 1, Fin 1], [Fin 2, Fin 3], [Fin 3, Fin 5]]],
             ltensors = [[1, 0, 1]]\<rparr>"
  let ?d = "ex_data\<lparr>data_x := 2, x_raw := Some 0\<rparr>"
  have h1: "epsilon_x ex_fp = Some 1" by (simp add: ex_fp_def FeaturePerturbation_init_def)
  have h2: "x_refs_ok (?st, ?d)" by (simp add: x_refs_ok_def)
  have h3: "input_range ex_fp = None" by (simp add: ex_fp_def FeaturePerturbation_init_def)
  have h4: "FeaturePerturbation_calls [] ex_fp (?st, ?d) = Inr (ex_fp, ?st, ?d)" by simp
  note c = range_frozen_from_pristine[OF h1 h2 h3 h4 ex_fp_call_used]
  then obtain lo hi where
    r: "tensor_min (pristine (?st, ?d)) = Inr lo" "tensor_max (pristine (?st, ?d)) = Inr hi"
    "input_range (ex_fp\<lparr>input_range := Some (Fin 0, Fin 2)\<rparr>) = Some (lo, hi)"
    by blast
  from r(3) have "lo = Fin 0" "hi = Fin 2" by simp_all
  with r have p: "tensor_min (pristine (?st, ?d)) = Inr (Fin 0)"
    "tensor_max (pristine (?st, ?d)) = Inr (Fin 2)" by simp_all
  have a: "tensor_min (attributes (?st, ?d)) = Inr (Fin 1)"
    "tensor_max (attributes (?st, ?d)) = Inr (Fin 5)"
    by (simp_all add: attributes_def tensor_min_def tensor_max_def fl_min_def fl_max_def)
  from h1 h3 h2 p a show ?thesis by (intro conjI)
qed

text \<open>
  Claim C2, as amended. With \<open>reduce_dim\<close> positive and \<open>epsilon_x\<close> set, the attributes
  handed to the mechanism in an invocation are the pristine attributes times the matrix
  drawn in that invocation; two invocations produce the same projected attributes when
  their draws are equal.
\<close>

theorem projection_drawn_at_each_call:
  assumes "epsilon_x self = Some eps" and "reduce_dim self = Some k" and "0 < k"
    and "x_refs_ok (st0, d0)"
    and "FeaturePerturbation_calls esA self (st0, d0) = Inr (selfA, sdA)"
    and "prepare eA selfA sdA = Inr (selfA', sdA')"
    and "FeaturePerturbation_calls esB self (st0, d0) = Inr (selfB, sdB)"
    and "prepare eB selfB sdB = Inr (selfB', sdB')"
  shows "matmul (pristine (st0, d0)) (torch_rand eA (num_features (pristine (st0, d0))) (nat k))
           = Inr (attributes sdA')
         \<and> matmul (pristine (st0, d0)) (torch_rand eB (num_features (pristine (st0, d0))) (nat k))
           = Inr (attributes sdB')
         \<and> (torch_rand eA = torch_rand eB \<longrightarrow> attributes sdA' = attributes sdB')"
proof -
  have one: "matmul (pristine (st0, d0)) (torch_rand e (num_features (pristine (st0, d0))) (nat k))
           = Inr (attributes sd')"
    if c: "FeaturePerturbation_calls es self (st0, d0) = Inr (self1, sd)"
      and p: "prepare e self1 sd = Inr (self1', sd')" for es self1 sd e self1' sd'
  proof -
    from FP_calls_inv[OF assms(1,4) c] have
      i: "x_refs_ok sd" "pristine sd = pristine (st0, d0)" "reduce_dim self1 = reduce_dim self"
      by auto
    from prepare_result[of "fst sd" "snd sd" e self1 self1' "fst sd'" "snd sd'"] i(1) p
    have "projected e self1 (pristine sd) = Inr (attributes sd')" by simp
    then show ?thesis using i(2,3) assms(2,3) by (simp add: projected_def)
  qed
  note a = one[OF assms(5,6)] and b = one[OF assms(7,8)]
  show ?thesis using a b by auto
qed

theorem projection_drawn_at_each_call_witness:
  "epsilon_x ex_fp = Some 1 \<and> reduce_dim ex_fp = Some 2 \<and> x_refs_ok (ex_store, ex_data)
   \<and> attributes (\<lparr>ftensors = [[[Fin 0], [Fin 1], [Fin 2]], [[Fin 0, Fin 0], [Fin 1, Fin 2], [Fin 2, Fin 4]]],
             ltensors = [[1, 0, 1]]\<rparr>,
            ex_data\<lparr>data_x := 1, x_raw := Some 0\<rparr>)
     = attributes (\<lparr>ftensors = [[[Fin 0], [Fin 1], [Fin 2]], [[Fin 0, Fin 0], [Fin 1, Fin 2], [Fin 2, Fin 4]],
                         [[Fin 1, Fin 1], [Fin 2, Fin 3], [Fin 3, Fin 5]],
                         [[Fin 0, Fin 0], [Fin 1, Fin 2], [Fin 2, Fin 4]]],
             ltensors = [[1, 0, 1]]\<rparr>,
            ex_data\<lparr>data_x := 3, x_raw := Some 0\<rparr>)"
proof -
  have h1: "epsilon_x ex_fp = Some 1" by (simp add: ex_fp_def FeaturePerturbation_init_def)
  have h2: "reduce_dim ex_fp = Some 2" by (simp add: ex_fp_def FeaturePerturbation_init_def)
  have h3: "(0::int) < 2" by simp
  have cA: "FeaturePerturbation_calls [] ex_fp (ex_store, ex_data) = Inr (ex_fp, (ex_store, ex_data))"
    by simp
  have pB: "prepare (ex_env [[Fin 1, Fin 2]]) (ex_fp\<lparr>input_range := Some (Fin 0, Fin 2)\<rparr>)
            (\<lparr>ftensors = [[[Fin 0], [Fin 1], [Fin 2]], [[Fin 0, Fin 0], [Fin 1, Fin 2], [Fin 2, Fin 4]],
                         [[Fin 1, Fin 1], [Fin 2, Fin 3], [Fin 3, Fin 5]]],
             ltensors = [[1, 0, 1]]\<rparr>,
            ex_data\<lparr>data_x := 2, x_raw := Some 0\<rparr>)
     = Inr (ex_fp\<lparr>input_range := Some (Fin 0, Fin 2)\<rparr>,
            \<lparr>ftensors = [[[Fin 0], [Fin 1], [Fin 2]], [[Fin 0, Fin 0], [Fin 1, Fin 2], [Fin 2, Fin 4]],
                         [[Fin 1, Fin 1], [Fin 2, Fin 3], [Fin 3, Fin 5]],
                         [[Fin 0, Fin 0], [Fin 1, Fin 2], [Fin 2, Fin 4]]],
             ltensors = [[1, 0, 1]]\<rparr>,
            ex_data\<lparr>data_x := 3, x_raw := Some 0\<rparr>)"
    by (simp add: ex_fp_prepare_second ex_matmul_1)
  note c = projection_drawn_at_each_call[OF h1 h2 h3 ex_refs_ok cA ex_fp_prepare_first
      ex_fp_calls_first pB]
  then show ?thesis using h1 h2 ex_refs_ok by simp
qed

text \<open>
  Claim C2 as stated fails: a first invocation draws \<open>[[1, 2]]\<close>, a second invocation on
  the same instance and dataset draws \<open>[[3, 4]]\<close>; the pristine attributes are the same,
  the projected attributes differ.
\<close>

theorem projection_fixed_counterexample:
  "prepare (ex_env [[Fin 1, Fin 2]]) ex_fp (ex_store, ex_data)
     = Inr (ex_fp\<lparr>input_range := Some (Fin 0, Fin 2)\<rparr>,
            \<lparr>ftensors = [[[Fin 0], [Fin 1], [Fin 2]], [[Fin 0, Fin 0], [Fin 1, Fin 2], [Fin 2, Fin 4]]],
             ltensors = [[1, 0, 1]]\<rparr>,
            ex_data\<lparr>data_x := 1, x_raw := Some 0\<rparr>)
   \<and> FeaturePerturbation_call (ex_env [[Fin 1, Fin 2]]) ex_fp (ex_store, ex_data)
     = Inr (ex_fp\<lparr>input_range := Some (Fin 0, Fin 2)\<rparr>,
            \<lparr>ftensors = [[[Fin 0], [Fin 1], [Fin 2]], [[Fin 0, Fin 0], [Fin 1, Fin 2], [Fin 2, Fin 4]],
                         [[Fin 1, Fin 1], [Fin 2, Fin 3], [Fin 3, Fin 5]]],
             ltensors = [[1, 0, 1]]\<rparr>,
            ex_data\<lparr>data_x := 2, x_raw := Some 0\<rparr>)
   \<and> prepare (ex_env [[Fin 3, Fin 4]]) (ex_fp\<lparr>input_range := Some (Fin 0, Fin 2)\<rparr>)
            (\<lparr>ftensors = [[[Fin 0], [Fin 1], [Fin 2]], [[Fin 0, Fin 0], [Fin 1, Fin 2], [Fin 2, Fin 4]],
                         [[Fin 1, Fin 1], [Fin 2, Fin 3], [Fin 3, Fin 5]]],
             ltensors = [[1, 0, 1]]\<rparr>,
            ex_data\<lparr>data_x := 2, x_raw := Some 0\<rparr>)
     = Inr (ex_fp\<lparr>input_range := Some (Fin 0, Fin 2)\<rparr>,
            \<lparr>ftensors = [[[Fin 0], [Fin 1], [Fin 2]], [[Fin 0, Fin 0], [Fin 1, Fin 2], [Fin 2, Fin 4]],
                         [[Fin 1, Fin 1], [Fin 2, Fin 3], [Fin 3, Fin 5]],
                         [[Fin 0, Fin 0], [Fin 3, Fin 4], [Fin 6, Fin 8]]],
             ltensors = [[1, 0, 1]]\<rparr>,
            ex_data\<lparr>data_x := 3, x_raw := Some 0\<rparr>)
   \<and> attributes (\<lparr>ftensors = [[[Fin 0], [Fin 1], [Fin 2]], [[Fin 0, Fin 0], [Fin 1, Fin 2], [Fin 2, Fin 4]]],
                   ltensors = [[1, 0, 1]]\<rparr>, ex_data\<lparr>data_x := 1, x_raw := Some 0\<rparr>)
       \<noteq> attributes (\<lparr>ftensors = [[[Fin 0], [Fin 1], [Fin 2]], [[Fin 0, Fin 0], [Fin 1, Fin 2], [Fin 2, Fin 4]],
                         [[Fin 1, Fin 1], [Fin 2, Fin 3], [Fin 3, Fin 5]],
                         [[Fin 0, Fin 0], [Fin 3, Fin 4], [Fin 6, Fin 8]]],
                   ltensors = [[1, 0, 1]]\<rparr>, ex_data\<lparr>data_x := 3, x_raw := Some 0\<rparr>)"
proof -
  have p2: "prepare (ex_env [[Fin 3, Fin 4]]) (ex_fp\<lparr>input_range := Some (Fin 0, Fin 2)\<rparr>)
            (\<lparr>ftensors = [[[Fin 0], [Fin 1], [Fin 2]], [[Fin 0, Fin 0], [Fin 1, Fin 2], [Fin 2, Fin 4]],
                         [[Fin 1, Fin 1], [Fin 2, Fin 3], [Fin 3, Fin 5]]],
             ltensors = [[1, 0, 1]]\<rparr>,
            ex_data\<lparr>data_x := 2, x_raw := Some 0\<rparr>)
     = Inr (ex_fp\<lparr>input_range := Some (Fin 0, Fin 2)\<rparr>,
            \<lparr>ftensors = [[[Fin 0], [Fin 1], [Fin 2]], [[Fin 0, Fin 0], [Fin 1, Fin 2], [Fin 2, Fin 4]],
                         [[Fin 1, Fin 1], [Fin 2, Fin 3], [Fin 3, Fin 5]],
                         [[Fin 0, Fin 0], [Fin 3, Fin 4], [Fin 6, Fin 8]]],
             ltensors = [[1, 0, 1]]\<rparr>,
            ex_data\<lparr>data_x := 3, x_raw := Some 0\<rparr>)"
    by (simp add: ex_fp_prepare_second ex_matmul_2)
  have ne: "attributes (\<lparr>ftensors = [[[Fin 0], [Fin 1], [Fin 2]], [[Fin 0, Fin 0], [Fin 1, Fin 2], [Fin 2, Fin 4]]],
                   ltensors = [[1, 0, 1]]\<rparr>, ex_data\<lparr>data_x := 1, x_raw := Some 0\<rparr>)
       \<noteq> attributes (\<lparr>ftensors = [[[Fin 0], [Fin 1], [Fin 2]], [[Fin 0, Fin 0], [Fin 1, Fin 2], [Fin 2, Fin 4]],
                         [[Fin 1, Fin 1], [Fin 2, Fin 3], [Fin 3, Fin 5]],
                         [[Fin 0, Fin 0], [Fin 3, Fin 4], [Fin 6, Fin 8]]],
                   ltensors = [[1, 0, 1]]\<rparr>, ex_data\<lparr>data_x := 3, x_raw := Some 0\<rparr>)"
    by (simp add: attributes_def)
  show ?thesis
    by (intro conjI) (rule ex_fp_prepare_first, rule ex_fp_call_first, rule p2, rule ne)
qed

section \<open>Properties of NodeSplit\<close>

lemma fill_length: "length (foldl (\<lambda>acc i. acc[i := True]) m idx) = length m"
  by (induction idx arbitrary: m) auto

lemma fill_nth:
  "i < length m \<Longrightarrow> foldl (\<lambda>acc i. acc[i := True]) m idx ! i = (m ! i \<or> i \<in> set idx)"
proof (induction idx arbitrary: m)
  case Nil
  then show ?case by simp
next
  case (Cons j idx)
  then show ?case by (cases "i = j") (auto simp: nth_list_update)
qed

lemma index_fill_zeros:
  assumes "set idx \<subseteq> {0..<n}"
  shows "\<exists>m. index_fill (replicate n False) idx = Inr m \<and> length m = n
           \<and> (\<forall>i < n. m ! i = (i \<in> set idx)) \<and> count_true m = card (set idx)"
proof -
  let ?m = "foldl (\<lambda>acc i. acc[i := True]) (replicate n False) idx"
  have e: "index_fill (replicate n False) idx = Inr ?m"
    using assms by (auto simp: index_fill_def)
  have l: "length ?m = n" by (simp add: fill_length)
  have nth: "\<forall>i < n. ?m ! i = (i \<in> set idx)" by (simp add: fill_nth)
  have "count_true ?m = card {i. i < length ?m \<and> id (?m ! i)}"
    unfolding count_true_def by (rule length_filter_conv_card)
  also have "{i. i < length ?m \<and> id (?m ! i)} = set idx"
    using l nth assms by auto
  finally show ?thesis using e l nth by blast
qed

lemma masked_assign_nth:
  "i < length vs \<Longrightarrow> length ms = length vs \<Longrightarrow> length ns = length (filter id ms)
     \<Longrightarrow> masked_assign vs ms ns ! i
         = (if ms ! i then ns ! length (filter id (take i ms)) else vs ! i)"
proof (induction vs ms ns arbitrary: i rule: masked_assign.induct)
  case (1 v vs ms n ns)
  then show ?case by (cases i) (auto simp: id_def)
next
  case (2 v vs ms ns)
  then show ?case by (cases i) (auto simp: id_def)
qed auto

lemma masked_assign_count:
  "length ms = length vs \<Longrightarrow> length ns = length (filter id ms) \<Longrightarrow> \<forall>v \<in> set vs. \<not> v
     \<Longrightarrow> count_true (masked_assign vs ms ns) = count_true ns"
  by (induction vs ms ns rule: masked_assign.induct) (auto simp: count_true_def id_def)

lemma renumber_less:
  "i < length ms \<Longrightarrow> ms ! i \<Longrightarrow> length (filter id (take i ms)) < length (filter id ms)"
proof -
  assume i: "i < length ms" and t: "ms ! i"
  have "ms = take i ms @ ms ! i # drop (Suc i) ms" using i by (simp add: id_take_nth_drop)
  then have "filter id ms = filter id (take i ms) @ filter id (ms ! i # drop (Suc i) ms)"
    by (metis filter_append)
  then show ?thesis using t by simp
qed

lemma segments_disjoint:
  assumes "distinct p" and "l1 + k1 \<le> l2"
  shows "set (take k1 (drop l1 p)) \<inter> set (take k2 (drop l2 p)) = {}"
proof -
  have a: "set (take k1 (drop l1 p)) \<subseteq> set (take (l1 + k1) p)"
  proof -
    have "take (l1 + k1) p = take l1 p @ take k1 (drop l1 p)" by (simp add: take_add)
    then show ?thesis by auto
  qed
  have b: "set (take k2 (drop l2 p)) \<subseteq> set (drop l2 p)" by (rule set_take_subset)
  have "set (take (l1 + k1) p) \<inter> set (drop l2 p) = {}"
    using assms by (rule set_take_disj_set_drop_if_distinct)
  then show ?thesis using a b by blast
qed

lemma nwc_count: "num_nodes_with_class sd = count_true (nodes_with_class sd)"
  by (auto simp: num_nodes_with_class_def nodes_with_class_def count_true_def split: option.splits)

lemma py_slice_nonneg:
  "py_slice xs (int a) (int b)
     = take (min b (length xs) - min a (length xs)) (drop (min a (length xs)) xs)"
  by (simp add: py_slice_def slice_bound_def Let_def)

lemma nwc_labels:
  assumes "case data_y d of None \<Rightarrow> True | Some a \<Rightarrow> length (ltensors st ! a) = num_nodes d"
  shows "length (nodes_with_class (st, d)) = num_nodes d
         \<and> (\<forall>i < num_nodes d. nodes_with_class (st, d) ! i
               = (case data_y d of None \<Rightarrow> True | Some a \<Rightarrow> ltensors st ! a ! i \<noteq> - 1))"
  using assms unfolding nodes_with_class_def
  by (auto split: option.splits simp: in_set_conv_nth)

lemma lift_mask:
  assumes "length nwc = N" and "length t = count_true nwc"
  shows "length (masked_assign (replicate N False) nwc t) = N"
    and "count_true (masked_assign (replicate N False) nwc t) = count_true t"
    and "\<And>i. i < N \<Longrightarrow> masked_assign (replicate N False) nwc t ! i
           = (nwc ! i \<and> t ! length (filter id (take i nwc)))"
proof -
  show "length (masked_assign (replicate N False) nwc t) = N"
    by (simp add: masked_assign_length)
  show "count_true (masked_assign (replicate N False) nwc t) = count_true t"
    using assms by (intro masked_assign_count) (auto simp: count_true_def)
  fix i assume "i < N"
  then show "masked_assign (replicate N False) nwc t ! i
           = (nwc ! i \<and> t ! length (filter id (take i nwc)))"
    using assms by (subst masked_assign_nth) (auto simp: count_true_def)
qed

lemma lift_disjoint:
  assumes "length nwc = N" and "length t1 = count_true nwc" and "length t2 = count_true nwc"
    and "\<forall>k < count_true nwc. \<not> (t1 ! k \<and> t2 ! k)" and "i < N"
  shows "\<not> (masked_assign (replicate N False) nwc t1 ! i
            \<and> masked_assign (replicate N False) nwc t2 ! i)"
proof
  assume h: "masked_assign (replicate N False) nwc t1 ! i
            \<and> masked_assign (replicate N False) nwc t2 ! i"
  let ?k = "length (filter id (take i nwc))"
  from h lift_mask(3)[OF assms(1,2) assms(5)] lift_mask(3)[OF assms(1,3) assms(5)]
  have "nwc ! i" "t1 ! ?k" "t2 ! ?k" by auto
  moreover have "?k < count_true nwc"
    using renumber_less[of i nwc] assms(1,5) \<open>nwc ! i\<close> by (simp add: count_true_def)
  ultimately show False using assms(4) by blast
qed

lemma perm_length: "distinct p \<Longrightarrow> set p = {0..<n} \<Longrightarrow> length p = n"
  using distinct_card[of p] by simp

lemma split_segments:
  fixes p :: "nat list" and n a b c :: nat
  assumes "distinct p" and "set p = {0..<n}"
  defines "tr \<equiv> py_slice p 0 (int a)"
    and "va \<equiv> py_slice p (int a) (int a + int b)"
    and "te \<equiv> py_slice p (int a + int b) (int a + int b + int c)"
  shows "(set tr \<subseteq> {0..<n} \<and> set va \<subseteq> {0..<n} \<and> set te \<subseteq> {0..<n})
    \<and> (set tr \<inter> set va = {} \<and> set tr \<inter> set te = {} \<and> set va \<inter> set te = {})
    \<and> card (set tr) = min a n
    \<and> card (set va) = min (a + b) n - min a n
    \<and> card (set te) = min (a + b + c) n - min (a + b) n"
proof -
  have len: "length p = n" using assms(1,2) by (rule perm_length)
  have tr: "tr = take (min a n - 0) (drop 0 p)"
    using py_slice_nonneg[of p 0 a] len by (simp add: tr_def)
  have va: "va = take (min (a + b) n - min a n) (drop (min a n) p)"
    using py_slice_nonneg[of p a "a + b"] len by (simp add: va_def)
  have te: "te = take (min (a + b + c) n - min (a + b) n) (drop (min (a + b) n) p)"
    using py_slice_nonneg[of p "a + b" "a + b + c"] len by (simp add: te_def)
  have sub: "\<And>k l. set (take k (drop l p)) \<subseteq> {0..<n}"
    using assms(2) set_take_subset set_drop_subset by fast
  have s: "set tr \<subseteq> {0..<n} \<and> set va \<subseteq> {0..<n} \<and> set te \<subseteq> {0..<n}"
    unfolding tr va te using sub by blast
  have d1: "set tr \<inter> set va = {}"
    unfolding tr va by (rule segments_disjoint[OF assms(1)]) simp
  have d2: "set tr \<inter> set te = {}"
    unfolding tr te by (rule segments_disjoint[OF assms(1)]) simp
  have d3: "set va \<inter> set te = {}"
    unfolding va te by (rule segments_disjoint[OF assms(1)]) simp
  have dist: "\<And>k l. distinct (take k (drop l p))" using assms(1) by simp
  have lt: "\<And>k l. k \<le> n - l \<Longrightarrow> card (set (take k (drop l p))) = k"
  proof -
    fix k l assume "k \<le> n - l"
    have "card (set (take k (drop l p))) = length (take k (drop l p))"
      using dist by (rule distinct_card)
    also have "\<dots> = k" using len \<open>k \<le> n - l\<close> by simp
    finally show "card (set (take k (drop l p))) = k" .
  qed
  have c1: "card (set tr) = min a n" unfolding tr using lt[of "min a n" 0] by simp
  have "min (a + b) n - min a n \<le> n - min a n" by (intro diff_le_mono) simp
  then have c2: "card (set va) = min (a + b) n - min a n" unfolding va by (rule lt)
  have "min (a + b + c) n - min (a + b) n \<le> n - min (a + b) n" by (intro diff_le_mono) simp
  then have c3: "card (set te) = min (a + b + c) n - min (a + b) n" unfolding te by (rule lt)
  show ?thesis using s d1 d2 d3 c1 c2 c3 by blast
qed

text \<open>Rounding to a double: the result is not negative for a non-negative argument, and
  it is computed from the binade of the argument.\<close>

lemma round_half_even_nonneg: "0 \<le> x \<Longrightarrow> 0 \<le> round_half_even x"
  by (auto simp: round_half_even_def Let_def)

lemma double_round_nonneg: "0 \<le> x \<Longrightarrow> 0 \<le> double_round x"
  by (auto simp: double_round_def Let_def sgn_real_def round_half_even_nonneg
           intro!: mult_nonneg_nonneg)

lemma scaled_count_nonneg:
  assumes "0 \<le> r"
  shows "scaled_count r n = int (nat (scaled_count r n))"
proof -
  have "0 \<le> double_round (r * real n)" using assms by (intro double_round_nonneg) simp
  then have "0 \<le> scaled_count r n" by (simp add: scaled_count_def py_int_def)
  then show ?thesis by simp
qed

lemma double_round_eval:
  fixes x :: real and k :: nat
  assumes "2 ^ k \<le> \<bar>x\<bar>" and "\<bar>x\<bar> < 2 ^ Suc k" and "k \<le> 52"
  shows "double_round x = sgn x * of_int (round_half_even (\<bar>x\<bar> * 2 ^ (52 - k))) / 2 ^ (52 - k)"
proof -
  have x0: "x \<noteq> 0"
  proof
    assume "x = 0"
    with assms(1) have "(2::real) ^ k \<le> 0" by simp
    moreover have "(0::real) < 2 ^ k" by (rule zero_less_power) simp
    ultimately show False by linarith
  qed
  have pos: "0 < \<bar>x\<bar>" using x0 by simp
  have lo: "real k \<le> log 2 \<bar>x\<bar>"
    using assms(1) pos by (simp add: le_log_iff powr_realpow)
  have hi: "log 2 \<bar>x\<bar> < real k + 1"
  proof -
    have "(2::real) powr (real (Suc k)) = 2 ^ Suc k" by (rule powr_realpow) simp
    then have "\<bar>x\<bar> < 2 powr (real (Suc k))" using assms(2) by (simp only:)
    then have "log 2 \<bar>x\<bar> < real (Suc k)" using pos by (simp add: log_less_iff)
    then show ?thesis by simp
  qed
  have e: "\<lfloor>log 2 \<bar>x\<bar>\<rfloor> = int k"
    using lo hi by (intro floor_unique) simp_all
  have u: "(2::real) powr (of_int (int k) - 52) = 1 / 2 ^ (52 - k)"
  proof -
    have ex: "real_of_int (int k) - 52 = - real (52 - k)" using assms(3) by simp
    have pr: "(2::real) powr real (52 - k) = 2 ^ (52 - k)" by (rule powr_realpow) simp
    have "2 powr (real_of_int (int k) - 52) = 2 powr (- real (52 - k))" by (simp only: ex)
    also have "\<dots> = 1 / 2 powr (real (52 - k))" by (rule powr_minus_divide)
    also have "\<dots> = 1 / 2 ^ (52 - k)" by (simp only: pr)
    finally show ?thesis .
  qed
  show ?thesis unfolding double_round_def Let_def e u using x0 by simp
qed

lemma dr1: "double_round 1 = 1"
  using double_round_eval[of 0 1] by (simp add: round_half_even_def)

lemma dr2: "double_round 2 = 2"
  using double_round_eval[of 1 2] by (simp add: round_half_even_def)

lemma dr4: "double_round 4 = 4"
  using double_round_eval[of 2 4] by (simp add: round_half_even_def)

lemma drm1: "double_round (- 1) = - 1"
  using double_round_eval[of 0 "- 1"] by (simp add: round_half_even_def)

lemma dr07: "double_round (6305039478318694 / 9007199254740992 * 10) = 7"
  using double_round_eval[of 2 "6305039478318694 / 9007199254740992 * 10"]
  by (simp add: round_half_even_def Let_def)

lemma floor07: "\<lfloor>(6305039478318694 / 9007199254740992 * 10 :: real)\<rfloor> = 6"
  by simp

lemma double_round_zero: "double_round 0 = 0"
  by (simp add: double_round_def)

lemma ex5_nodes_with_class: "nodes_with_class (ex_store5, ex_data5) = [True, False, True, True, True]"
  by (simp add: nodes_with_class_def ex_store5_def ex_data5_def)

lemma ex5_num_nodes_with_class: "num_nodes_with_class (ex_store5, ex_data5) = 4"
  by (simp add: nwc_count count_true_def ex5_nodes_with_class)

lemma ex5_num_nodes: "num_nodes ex_data5 = 5"
  by (simp add: ex_data5_def)

lemma ex5_counts:
  "scaled_count 1 4 = 4" "scaled_count (1/2) 4 = 2" "scaled_count (1/4) 4 = 1"
  "scaled_count (- 1/4) 4 = - 1"
proof -
  have c: "\<lceil>- 1 :: real\<rceil> = - 1" using ceiling_of_int[of "- 1"] by simp
  show "scaled_count 1 4 = 4" "scaled_count (1/2) 4 = 2" "scaled_count (1/4) 4 = 1"
    by (simp_all add: scaled_count_def dr1 dr2 dr4 py_int_def)
  show "scaled_count (- 1/4) 4 = - 1"
    by (simp add: scaled_count_def drm1 py_int_def c)
qed

lemma ex_perm4: "ex_perm 4 = [3, 1, 0, 2]"
  by (simp add: ex_perm_def)

lemmas ns_unfold = NodeSplit_call_def Let_def snd_conv fst_conv NodeSplit.simps
  ex5_num_nodes_with_class ex5_counts ex5_nodes_with_class ex5_num_nodes ex_perm4

lemmas ns_eval = py_slice_def slice_bound_def index_fill_def eval_nat_numeral

lemma ex_split_too_much:
  "NodeSplit_call ex_perm \<lparr>train_ratio = 1, val_ratio = 1/4, test_ratio = 1/4\<rparr> (ex_store5, ex_data5)
   = Inr (ex_store5, ex_data5\<lparr>val_mask := [False, False, False, False, False],
                              test_mask := [False, False, False, False, False],
                              train_mask := [True, False, True, True, True]\<rparr>)"
  unfolding ns_unfold by (simp add: ns_eval)

lemma ex_split_ok:
  "NodeSplit_call ex_perm \<lparr>train_ratio = 1/2, val_ratio = 1/4, test_ratio = 1/4\<rparr> (ex_store5, ex_data5)
   = Inr (ex_store5, ex_data5\<lparr>val_mask := [True, False, False, False, False],
                              test_mask := [False, False, False, True, False],
                              train_mask := [False, False, True, False, True]\<rparr>)"
  unfolding ns_unfold by (simp add: ns_eval)

text \<open>
  Claim C7, as amended. For a split whose validation and test ratios are not negative
  (the training ratio is positive by the constructor's assertion), on a dataset whose
  label vector has one entry per node, and for a permutation drawn by \<open>randperm\<close>:
  NodeSplit succeeds and produces three masks of length \<open>N\<close>, pairwise disjoint, that
  select only nodes with a label other than -1. With \<open>n\<close> the number of those nodes
  and \<open>a\<close>, \<open>b\<close>, \<open>c\<close> the values of \<open>int(ratio * n)\<close> as lines 159 to 161
  compute them (the product rounded to a double, then truncated), the masks select
  \<open>min a n\<close>, \<open>min (a + b) n - min a n\<close> and
  \<open>min (a + b + c) n - min (a + b) n\<close> nodes (the slices are cut at the end of the
  permutation); these are exactly \<open>a\<close>, \<open>b\<close> and \<open>c\<close> when \<open>a + b + c \<le> n\<close>.
\<close>

theorem NodeSplit_masks:
  assumes "0 < train_ratio self" and "0 \<le> val_ratio self" and "0 \<le> test_ratio self"
    and "case data_y d of None \<Rightarrow> True | Some a \<Rightarrow> length (ltensors st ! a) = num_nodes d"
    and "distinct (randperm (num_nodes_with_class (st, d)))"
    and "set (randperm (num_nodes_with_class (st, d))) = {0..<num_nodes_with_class (st, d)}"
  shows "\<exists>d'. NodeSplit_call randperm self (st, d) = Inr (st, d')
     \<and> length (train_mask d') = num_nodes d \<and> length (val_mask d') = num_nodes d
     \<and> length (test_mask d') = num_nodes d
     \<and> (\<forall>i < num_nodes d. \<not> (train_mask d' ! i \<and> val_mask d' ! i)
            \<and> \<not> (train_mask d' ! i \<and> test_mask d' ! i)
            \<and> \<not> (val_mask d' ! i \<and> test_mask d' ! i))
     \<and> (\<forall>i < num_nodes d. train_mask d' ! i \<or> val_mask d' ! i \<or> test_mask d' ! i \<longrightarrow>
            (case data_y d of None \<Rightarrow> True | Some a \<Rightarrow> ltensors st ! a ! i \<noteq> - 1))
     \<and> (let n = num_nodes_with_class (st, d);
             a = nat (scaled_count (train_ratio self) n);
             b = nat (scaled_count (val_ratio self) n);
             c = nat (scaled_count (test_ratio self) n)
         in n = card {i. i < num_nodes d
                       \<and> (case data_y d of None \<Rightarrow> True | Some a \<Rightarrow> ltensors st ! a ! i \<noteq> - 1)}
            \<and> count_true (train_mask d') = min a n
            \<and> count_true (val_mask d') = min (a + b) n - min a n
            \<and> count_true (test_mask d') = min (a + b + c) n - min (a + b) n
            \<and> (a + b + c \<le> n \<longrightarrow> count_true (train_mask d') = a
                   \<and> count_true (val_mask d') = b \<and> count_true (test_mask d') = c))"
proof -
  define nwc where "nwc = nodes_with_class (st, d)"
  define N where "N = num_nodes d"
  define n where "n = num_nodes_with_class (st, d)"
  define a where "a = nat (scaled_count (train_ratio self) n)"
  define b where "b = nat (scaled_count (val_ratio self) n)"
  define c where "c = nat (scaled_count (test_ratio self) n)"
  define p where "p = randperm n"
  define tr where "tr = py_slice p 0 (int a)"
  define va where "va = py_slice p (int a) (int a + int b)"
  define te where "te = py_slice p (int a + int b) (int a + int b + int c)"
  have nn: "n = count_true nwc" unfolding n_def nwc_def by (rule nwc_count)
  from nwc_labels[OF assms(4)] have
    lnwc: "length nwc = N" and
    lab: "\<forall>i < N. nwc ! i = (case data_y d of None \<Rightarrow> True | Some a \<Rightarrow> ltensors st ! a ! i \<noteq> - 1)"
    unfolding nwc_def N_def by auto
  have ncard: "n = card {i. i < N \<and> (case data_y d of None \<Rightarrow> True | Some a \<Rightarrow> ltensors st ! a ! i \<noteq> - 1)}"
  proof -
    have "n = card {i. i < length nwc \<and> id (nwc ! i)}"
      unfolding nn count_true_def by (rule length_filter_conv_card)
    also have "{i. i < length nwc \<and> id (nwc ! i)}
        = {i. i < N \<and> (case data_y d of None \<Rightarrow> True | Some a \<Rightarrow> ltensors st ! a ! i \<noteq> - 1)}"
      using lnwc lab by auto
    finally show ?thesis .
  qed
  have dp: "distinct p" and sp: "set p = {0..<n}" using assms(5,6) unfolding p_def n_def by auto
  note seg0 = split_segments[OF dp sp, where a=a and b=b and c=c, folded tr_def va_def te_def]
  have seg: "set tr \<subseteq> {0..<n} \<and> set va \<subseteq> {0..<n} \<and> set te \<subseteq> {0..<n}"
    "set tr \<inter> set va = {} \<and> set tr \<inter> set te = {} \<and> set va \<inter> set te = {}"
    "card (set tr) = min a n" "card (set va) = min (a + b) n - min a n"
    "card (set te) = min (a + b + c) n - min (a + b) n"
    using seg0 by blast+
  have pa: "scaled_count (train_ratio self) n = int a"
    unfolding a_def using assms(1) by (intro scaled_count_nonneg) simp
  have pb: "scaled_count (val_ratio self) n = int b"
    unfolding b_def using assms(2) by (intro scaled_count_nonneg) simp
  have pc: "scaled_count (test_ratio self) n = int c"
    unfolding c_def using assms(3) by (intro scaled_count_nonneg) simp
  from index_fill_zeros[of tr n] seg(1) obtain ttr where
    ttr: "index_fill (replicate n False) tr = Inr ttr" "length ttr = n"
         "\<forall>i < n. ttr ! i = (i \<in> set tr)" "count_true ttr = card (set tr)" by blast
  from index_fill_zeros[of va n] seg(1) obtain tva where
    tva: "index_fill (replicate n False) va = Inr tva" "length tva = n"
         "\<forall>i < n. tva ! i = (i \<in> set va)" "count_true tva = card (set va)" by blast
  from index_fill_zeros[of te n] seg(1) obtain tte where
    tte: "index_fill (replicate n False) te = Inr tte" "length tte = n"
         "\<forall>i < n. tte ! i = (i \<in> set te)" "count_true tte = card (set te)" by blast
  define d' where "d' = d\<lparr>val_mask := masked_assign (replicate N False) nwc tva,
                          test_mask := masked_assign (replicate N False) nwc tte,
                          train_mask := masked_assign (replicate N False) nwc ttr\<rparr>"
  have call: "NodeSplit_call randperm self (st, d) = Inr (st, d')"
    unfolding NodeSplit_call_def Let_def fst_conv snd_conv
      n_def[symmetric] p_def[symmetric] nwc_def[symmetric] N_def[symmetric] pa pb pc
      tr_def[symmetric] va_def[symmetric] te_def[symmetric]
    using ttr(1) tva(1) tte(1) lnwc by (simp add: d'_def)
  have l1: "length ttr = count_true nwc" "length tva = count_true nwc" "length tte = count_true nwc"
    using ttr(2) tva(2) tte(2) nn by auto
  have masks: "train_mask d' = masked_assign (replicate N False) nwc ttr"
    "val_mask d' = masked_assign (replicate N False) nwc tva"
    "test_mask d' = masked_assign (replicate N False) nwc tte"
    unfolding d'_def by auto
  have lens: "length (train_mask d') = N" "length (val_mask d') = N" "length (test_mask d') = N"
    unfolding masks by (simp_all add: masked_assign_length)
  have dj1: "\<forall>k < count_true nwc. \<not> (ttr ! k \<and> tva ! k)"
    using ttr(3) tva(3) seg(2) nn by auto
  have dj2: "\<forall>k < count_true nwc. \<not> (ttr ! k \<and> tte ! k)"
    using ttr(3) tte(3) seg(2) nn by auto
  have dj3: "\<forall>k < count_true nwc. \<not> (tva ! k \<and> tte ! k)"
    using tva(3) tte(3) seg(2) nn by auto
  have disj: "\<forall>i < N. \<not> (train_mask d' ! i \<and> val_mask d' ! i)
            \<and> \<not> (train_mask d' ! i \<and> test_mask d' ! i)
            \<and> \<not> (val_mask d' ! i \<and> test_mask d' ! i)"
    unfolding masks
    using lift_disjoint[OF lnwc l1(1) l1(2) dj1] lift_disjoint[OF lnwc l1(1) l1(3) dj2]
      lift_disjoint[OF lnwc l1(2) l1(3) dj3] by blast
  have sub: "\<forall>i < N. train_mask d' ! i \<or> val_mask d' ! i \<or> test_mask d' ! i \<longrightarrow>
            (case data_y d of None \<Rightarrow> True | Some a \<Rightarrow> ltensors st ! a ! i \<noteq> - 1)"
  proof (intro allI impI)
    fix i assume i: "i < N" and m: "train_mask d' ! i \<or> val_mask d' ! i \<or> test_mask d' ! i"
    from m have "nwc ! i"
      unfolding masks
      using lift_mask(3)[OF lnwc l1(1) i] lift_mask(3)[OF lnwc l1(2) i] lift_mask(3)[OF lnwc l1(3) i]
      by blast
    then show "case data_y d of None \<Rightarrow> True | Some a \<Rightarrow> ltensors st ! a ! i \<noteq> - 1"
      using lab i by simp
  qed
  have cnt: "count_true (train_mask d') = min a n"
    "count_true (val_mask d') = min (a + b) n - min a n"
    "count_true (test_mask d') = min (a + b + c) n - min (a + b) n"
    unfolding masks
    by (simp_all only: lift_mask(2)[OF lnwc l1(1)] lift_mask(2)[OF lnwc l1(2)]
        lift_mask(2)[OF lnwc l1(3)] ttr(4) tva(4) tte(4) seg(3,4,5))
  have exact: "a + b + c \<le> n \<longrightarrow> count_true (train_mask d') = a
                   \<and> count_true (val_mask d') = b \<and> count_true (test_mask d') = c"
  proof
    assume le: "a + b + c \<le> n"
    then have "min a n = a" "min (a + b) n = a + b" "min (a + b + c) n = a + b + c" by simp_all
    then show "count_true (train_mask d') = a
                   \<and> count_true (val_mask d') = b \<and> count_true (test_mask d') = c"
      unfolding cnt by simp
  qed
  show ?thesis
    apply (rule exI[of _ d'])
    using call lens disj sub ncard cnt exact
    unfolding Let_def n_def[symmetric] a_def[symmetric] b_def[symmetric] c_def[symmetric]
      N_def[symmetric]
    by simp
qed

theorem NodeSplit_masks_witness:
  "(0::real) < 1/2 \<and> (0::real) \<le> 1/4
   \<and> (case data_y ex_data5 of None \<Rightarrow> True
       | Some a \<Rightarrow> length (ltensors ex_store5 ! a) = num_nodes ex_data5)
   \<and> distinct (ex_perm (num_nodes_with_class (ex_store5, ex_data5)))
   \<and> set (ex_perm (num_nodes_with_class (ex_store5, ex_data5)))
        = {0..<num_nodes_with_class (ex_store5, ex_data5)}
   \<and> count_true [False, False, True, False, True] = 2
   \<and> count_true [True, False, False, False, False] = 1
   \<and> count_true [False, False, False, True, False] = 1
   \<and> \<not> ([False, False, True, False, True] ! 2 \<and> [True, False, False, False, False] ! 2)"
proof -
  let ?S = "\<lparr>train_ratio = 1/2, val_ratio = 1/4, test_ratio = 1/4\<rparr>"
  let ?d = "ex_data5\<lparr>val_mask := [True, False, False, False, False],
                              test_mask := [False, False, False, True, False],
                              train_mask := [False, False, True, False, True]\<rparr>"
  have h1: "0 < train_ratio ?S" by simp
  have h2: "0 \<le> val_ratio ?S" by simp
  have h3: "0 \<le> test_ratio ?S" by simp
  have h4: "case data_y ex_data5 of None \<Rightarrow> True
       | Some a \<Rightarrow> length (ltensors ex_store5 ! a) = num_nodes ex_data5"
    by (simp add: ex_data5_def ex_store5_def)
  have h5: "distinct (ex_perm (num_nodes_with_class (ex_store5, ex_data5)))"
    by (simp add: ex5_num_nodes_with_class ex_perm_def)
  have h6: "set (ex_perm (num_nodes_with_class (ex_store5, ex_data5)))
        = {0..<num_nodes_with_class (ex_store5, ex_data5)}"
    by (auto simp: ex5_num_nodes_with_class ex_perm_def)
  from NodeSplit_masks[where randperm=ex_perm and self="?S" and st=ex_store5 and d=ex_data5,
      OF h1 h2 h3 h4 h5 h6] obtain d' where
    c: "NodeSplit_call ex_perm ?S (ex_store5, ex_data5) = Inr (ex_store5, d')"
    and dj: "\<forall>i < num_nodes ex_data5. \<not> (train_mask d' ! i \<and> val_mask d' ! i)
            \<and> \<not> (train_mask d' ! i \<and> test_mask d' ! i)
            \<and> \<not> (val_mask d' ! i \<and> test_mask d' ! i)"
    and cn: "let n = num_nodes_with_class (ex_store5, ex_data5);
             a = nat (scaled_count (train_ratio ?S) n);
             b = nat (scaled_count (val_ratio ?S) n);
             c = nat (scaled_count (test_ratio ?S) n)
         in n = card {i. i < num_nodes ex_data5
                       \<and> (case data_y ex_data5 of None \<Rightarrow> True | Some a \<Rightarrow> ltensors ex_store5 ! a ! i \<noteq> - 1)}
            \<and> count_true (train_mask d') = min a n
            \<and> count_true (val_mask d') = min (a + b) n - min a n
            \<and> count_true (test_mask d') = min (a + b + c) n - min (a + b) n
            \<and> (a + b + c \<le> n \<longrightarrow> count_true (train_mask d') = a
                   \<and> count_true (val_mask d') = b \<and> count_true (test_mask d') = c)"
    by blast
  have d': "d' = ?d" using c ex_split_ok by simp
  have n5: "num_nodes ex_data5 = 5" by (simp add: ex_data5_def)
  from cn have "count_true (train_mask d') = 2 \<and> count_true (val_mask d') = 1
                 \<and> count_true (test_mask d') = 1"
    by (simp add: Let_def ex5_num_nodes_with_class ex5_counts)
  moreover from dj n5 have "\<not> (train_mask d' ! 2 \<and> val_mask d' ! 2)" by simp
  ultimately show ?thesis using h4 h5 h6 unfolding d' by simp
qed

lemma ex_split_negative:
  "NodeSplit_call ex_perm \<lparr>train_ratio = 1/2, val_ratio = - 1/4, test_ratio = 1/4\<rparr>
     (ex_store5, ex_data5)
   = Inr (ex_store5, ex_data5\<lparr>val_mask := [False, False, False, False, False],
                              test_mask := [False, False, True, False, False],
                              train_mask := [False, False, True, False, True]\<rparr>)"
proof -
  have s1: "py_slice [3, 1, 0, 2::nat] 0 2 = [3, 1]"
    by (simp add: py_slice_def slice_bound_def eval_nat_numeral)
  have s2: "py_slice [3, 1, 0, 2::nat] 2 (2 + - 1) = []"
    by (simp add: py_slice_def slice_bound_def eval_nat_numeral)
  have s3: "py_slice [3, 1, 0, 2::nat] (2 + - 1) (2 + - 1 + 1) = [1]"
    by (simp add: py_slice_def slice_bound_def eval_nat_numeral)
  show ?thesis
    unfolding ns_unfold s1 s2 s3 by (simp add: index_fill_def eval_nat_numeral)
qed

lemma ex10_nodes_with_class: "nodes_with_class (ex_store10, ex_data10) = replicate 10 True"
  by (simp add: nodes_with_class_def ex_store10_def ex_data10_def)

lemma ex10_num_nodes_with_class: "num_nodes_with_class (ex_store10, ex_data10) = 10"
  by (simp add: num_nodes_with_class_def ex_store10_def ex_data10_def)

lemma ex10_num_nodes: "num_nodes ex_data10 = 10"
  by (simp add: ex_data10_def)

lemma ex_perm10: "ex_perm 10 = [0, 1, 2, 3, 4, 5, 6, 7, 8, 9]"
  by (simp add: ex_perm_def upt_conv_Cons)

lemma ex10_counts:
  "scaled_count (6305039478318694 / 9007199254740992) 10 = 7" "scaled_count 0 10 = 0"
proof -
  have "(6305039478318694 / 9007199254740992) * real (10::nat)
        = (6305039478318694 / 9007199254740992 * 10 :: real)" by simp
  then show "scaled_count (6305039478318694 / 9007199254740992) 10 = 7"
    unfolding scaled_count_def by (simp only: dr07) (simp add: py_int_def)
  show "scaled_count 0 10 = 0"
    by (simp add: scaled_count_def double_round_zero py_int_def)
qed

lemma ex_split_float:
  "NodeSplit_call ex_perm
     \<lparr>train_ratio = 6305039478318694 / 9007199254740992, val_ratio = 0, test_ratio = 0\<rparr>
     (ex_store10, ex_data10)
   = Inr (ex_store10,
          ex_data10\<lparr>val_mask := [False, False, False, False, False, False, False, False, False, False],
                    test_mask := [False, False, False, False, False, False, False, False, False, False],
                    train_mask := [True, True, True, True, True, True, True, False, False, False]\<rparr>)"
  unfolding NodeSplit_call_def Let_def snd_conv NodeSplit.simps ex10_num_nodes_with_class
    ex10_counts ex_perm10 ex10_nodes_with_class ex10_num_nodes
  by (simp add: py_slice_def slice_bound_def index_fill_def eval_nat_numeral)

text \<open>
  Claim C7 as stated fails in three ways. For ratios that sum to more than 1: with
  \<open>NodeSplit(train_ratio=1.0)\<close> and the default validation and test ratios 0.25, on
  four labelled nodes, all four go to train and none to validation, although the floor
  of \<open>0.25 * 4\<close> is 1. For a negative ratio, which the constructor accepts: with
  \<open>NodeSplit(train_ratio=0.5, val_ratio=-0.25, test_ratio=0.25)\<close> on the same nodes the
  slices are \<open>perm[:2]\<close>, \<open>perm[2:1]\<close> and \<open>perm[1:2]\<close>, and node 2 is in both the
  train and the test mask. For the rounding of the product: with \<open>train_ratio=0.7\<close>,
  the double \<open>6305039478318694 / 2^53\<close>, on ten labelled nodes, the double product is
  7 and seven nodes go to train, although the floor of the exact product is 6.
\<close>

theorem NodeSplit_exact_counts_counterexample:
  "(NodeSplit_init (Some 1) (1/4) (1/4)
      = Inr \<lparr>train_ratio = 1, val_ratio = 1/4, test_ratio = 1/4\<rparr>
    \<and> NodeSplit_call ex_perm \<lparr>train_ratio = 1, val_ratio = 1/4, test_ratio = 1/4\<rparr>
          (ex_store5, ex_data5)
        = Inr (ex_store5, ex_data5\<lparr>val_mask := [False, False, False, False, False],
                              test_mask := [False, False, False, False, False],
                              train_mask := [True, False, True, True, True]\<rparr>)
    \<and> num_nodes_with_class (ex_store5, ex_data5) = 4
    \<and> \<lfloor>(1/4 :: real) * real (num_nodes_with_class (ex_store5, ex_data5))\<rfloor> = 1
    \<and> count_true [False, False, False, False, False] = 0)
   \<and> (NodeSplit_init (Some (1/2)) (- 1/4) (1/4)
        = Inr \<lparr>train_ratio = 1/2, val_ratio = - 1/4, test_ratio = 1/4\<rparr>
      \<and> NodeSplit_call ex_perm \<lparr>train_ratio = 1/2, val_ratio = - 1/4, test_ratio = 1/4\<rparr>
            (ex_store5, ex_data5)
          = Inr (ex_store5, ex_data5\<lparr>val_mask := [False, False, False, False, False],
                              test_mask := [False, False, True, False, False],
                              train_mask := [False, False, True, False, True]\<rparr>)
      \<and> [False, False, True, False, True] ! 2 \<and> [False, False, True, False, False] ! 2)
   \<and> (NodeSplit_init (Some (6305039478318694 / 9007199254740992)) 0 0
        = Inr \<lparr>train_ratio = 6305039478318694 / 9007199254740992, val_ratio = 0,
                test_ratio = 0\<rparr>
      \<and> NodeSplit_call ex_perm
            \<lparr>train_ratio = 6305039478318694 / 9007199254740992, val_ratio = 0, test_ratio = 0\<rparr>
            (ex_store10, ex_data10)
          = Inr (ex_store10,
                 ex_data10\<lparr>val_mask := [False, False, False, False, False, False, False, False, False, False],
                    test_mask := [False, False, False, False, False, False, False, False, False, False],
                    train_mask := [True, True, True, True, True, True, True, False, False, False]\<rparr>)
      \<and> num_nodes_with_class (ex_store10, ex_data10) = 10
      \<and> \<lfloor>(6305039478318694 / 9007199254740992 :: real)
            * real (num_nodes_with_class (ex_store10, ex_data10))\<rfloor> = 6
      \<and> count_true [True, True, True, True, True, True, True, False, False, False] = 7)"
proof -
  have i1: "NodeSplit_init (Some 1) (1/4) (1/4)
             = Inr \<lparr>train_ratio = 1, val_ratio = 1/4, test_ratio = 1/4\<rparr>"
    by (simp add: NodeSplit_init_def)
  have f1: "\<lfloor>(1/4 :: real) * real (num_nodes_with_class (ex_store5, ex_data5))\<rfloor> = 1"
    by (simp add: ex5_num_nodes_with_class)
  have c1: "count_true [False, False, False, False, False] = 0"
    by (simp add: count_true_def)
  have i2: "NodeSplit_init (Some (1/2)) (- 1/4) (1/4)
        = Inr \<lparr>train_ratio = 1/2, val_ratio = - 1/4, test_ratio = 1/4\<rparr>"
    by (simp add: NodeSplit_init_def)
  have o2: "[False, False, True, False, True] ! 2" "[False, False, True, False, False] ! 2"
    by (simp_all add: eval_nat_numeral)
  have i3: "NodeSplit_init (Some (6305039478318694 / 9007199254740992)) 0 0
        = Inr \<lparr>train_ratio = 6305039478318694 / 9007199254740992, val_ratio = 0,
                test_ratio = 0\<rparr>"
    by (simp add: NodeSplit_init_def)
  have f3: "\<lfloor>(6305039478318694 / 9007199254740992 :: real)
            * real (num_nodes_with_class (ex_store10, ex_data10))\<rfloor> = 6"
    by (simp add: ex10_num_nodes_with_class)
  have c3: "count_true [True, True, True, True, True, True, True, False, False, False] = 7"
    by (simp add: count_true_def)
  from i1 ex_split_too_much ex5_num_nodes_with_class f1 c1
       i2 ex_split_negative o2 i3 ex_split_float ex10_num_nodes_with_class f3 c3
  show ?thesis by (intro conjI)
qed

section \<open>Properties of Normalize\<close>

lemma fold_rows_length:
  "length r = D \<Longrightarrow> \<forall>row \<in> set rs. length row = D
     \<Longrightarrow> length (foldl (\<lambda>acc row. map (\<lambda>(a, b). f a b) (zip acc row)) r rs) = D"
  by (induction rs arbitrary: r) auto

lemma fold_rows_nth:
  "length r = D \<Longrightarrow> \<forall>row \<in> set rs. length row = D \<Longrightarrow> j < D
     \<Longrightarrow> foldl (\<lambda>acc row. map (\<lambda>(a, b). f a b) (zip acc row)) r rs ! j
         = foldl f (r ! j) (map (\<lambda>row. row ! j) rs)"
  by (induction rs arbitrary: r) auto

lemma fl_min_Fin: "fl_min (Fin a) (Fin b) = Fin (min a b)"
  by (simp add: fl_min_def min_def)

lemma fl_max_Fin: "fl_max (Fin a) (Fin b) = Fin (max a b)"
  by (simp add: fl_max_def max_def)

lemma foldl_fl_min_Fin: "foldl fl_min (Fin a) (map Fin bs) = Fin (foldl min a bs)"
  by (induction bs arbitrary: a) (auto simp: fl_min_Fin)

lemma foldl_fl_max_Fin: "foldl fl_max (Fin a) (map Fin bs) = Fin (foldl max a bs)"
  by (induction bs arbitrary: a) (auto simp: fl_max_Fin)

lemma foldl_min_Min: "foldl min (a::real) bs = Min (set (a # bs))"
proof (induction bs arbitrary: a)
  case Nil
  then show ?case by simp
next
  case (Cons b bs)
  have "foldl min a (b # bs) = Min (set (min a b # bs))" using Cons by simp
  also have "\<dots> = Min (insert (min a b) (set bs))" by simp
  also have "\<dots> = Min (insert a (insert b (set bs)))"
    by (cases "set bs = {}") (auto simp: min.assoc)
  finally show ?case by simp
qed

lemma foldl_max_Max: "foldl max (a::real) bs = Max (set (a # bs))"
proof (induction bs arbitrary: a)
  case Nil
  then show ?case by simp
next
  case (Cons b bs)
  have "foldl max a (b # bs) = Max (set (max a b # bs))" using Cons by simp
  also have "\<dots> = Max (insert (max a b) (set bs))" by simp
  also have "\<dots> = Max (insert a (insert b (set bs)))"
    by (cases "set bs = {}") (auto simp: max.assoc)
  finally show ?case by simp
qed

lemma min_dim0_fin:
  assumes "xr \<noteq> []" and "\<forall>r \<in> set xr. length r = D"
  shows "min_dim0 (fin_matrix xr) = Inr (map (\<lambda>j. Fin (Min (set (rcolumn xr j)))) [0..<D])"
proof -
  from assms(1) obtain r rs where xr: "xr = r # rs" by (cases xr) auto
  let ?res = "foldl (\<lambda>acc row. map (\<lambda>(a, b). fl_min a b) (zip acc row)) (map Fin r) (map (map Fin) rs)"
  have lr: "length (map Fin r) = D" "\<forall>row \<in> set (map (map Fin) rs). length row = D"
    using assms(2) xr by auto
  have e: "min_dim0 (fin_matrix xr) = Inr ?res"
    by (simp add: min_dim0_def fin_matrix_def xr)
  have "?res = map (\<lambda>j. Fin (Min (set (rcolumn xr j)))) [0..<D]"
  proof (rule nth_equalityI)
    show "length ?res = length (map (\<lambda>j. Fin (Min (set (rcolumn xr j)))) [0..<D])"
      using fold_rows_length[OF lr] by simp
  next
    fix j assume "j < length ?res"
    then have j: "j < D" using fold_rows_length[OF lr, of fl_min] by simp
    have "?res ! j = foldl fl_min (map Fin r ! j) (map (\<lambda>row. row ! j) (map (map Fin) rs))"
      using fold_rows_nth[OF lr j] by simp
    also have "map (\<lambda>row. row ! j) (map (map Fin) rs) = map Fin (map (\<lambda>row. row ! j) rs)"
      using assms(2) xr j by auto
    also have "map Fin r ! j = Fin (r ! j)" using assms(2) xr j by simp
    also have "foldl fl_min (Fin (r ! j)) (map Fin (map (\<lambda>row. row ! j) rs))
                 = Fin (Min (set (rcolumn xr j)))"
    proof -
      have "foldl fl_min (Fin (r ! j)) (map Fin (map (\<lambda>row. row ! j) rs))
              = Fin (foldl min (r ! j) (map (\<lambda>row. row ! j) rs))"
        by (rule foldl_fl_min_Fin)
      also have "\<dots> = Fin (Min (set (r ! j # map (\<lambda>row. row ! j) rs)))"
        by (simp only: foldl_min_Min)
      also have "r ! j # map (\<lambda>row. row ! j) rs = rcolumn xr j"
        by (simp add: rcolumn_def xr)
      finally show ?thesis .
    qed
    finally show "?res ! j = map (\<lambda>j. Fin (Min (set (rcolumn xr j)))) [0..<D] ! j"
      using j by simp
  qed
  then show ?thesis using e by simp
qed

lemma max_dim0_fin:
  assumes "xr \<noteq> []" and "\<forall>r \<in> set xr. length r = D"
  shows "max_dim0 (fin_matrix xr) = Inr (map (\<lambda>j. Fin (Max (set (rcolumn xr j)))) [0..<D])"
proof -
  from assms(1) obtain r rs where xr: "xr = r # rs" by (cases xr) auto
  let ?res = "foldl (\<lambda>acc row. map (\<lambda>(a, b). fl_max a b) (zip acc row)) (map Fin r) (map (map Fin) rs)"
  have lr: "length (map Fin r) = D" "\<forall>row \<in> set (map (map Fin) rs). length row = D"
    using assms(2) xr by auto
  have e: "max_dim0 (fin_matrix xr) = Inr ?res"
    by (simp add: max_dim0_def fin_matrix_def xr)
  have "?res = map (\<lambda>j. Fin (Max (set (rcolumn xr j)))) [0..<D]"
  proof (rule nth_equalityI)
    show "length ?res = length (map (\<lambda>j. Fin (Max (set (rcolumn xr j)))) [0..<D])"
      using fold_rows_length[OF lr] by simp
  next
    fix j assume "j < length ?res"
    then have j: "j < D" using fold_rows_length[OF lr, of fl_max] by simp
    have "?res ! j = foldl fl_max (map Fin r ! j) (map (\<lambda>row. row ! j) (map (map Fin) rs))"
      using fold_rows_nth[OF lr j] by simp
    also have "map (\<lambda>row. row ! j) (map (map Fin) rs) = map Fin (map (\<lambda>row. row ! j) rs)"
      using assms(2) xr j by auto
    also have "map Fin r ! j = Fin (r ! j)" using assms(2) xr j by simp
    also have "foldl fl_max (Fin (r ! j)) (map Fin (map (\<lambda>row. row ! j) rs))
                 = Fin (Max (set (rcolumn xr j)))"
    proof -
      have "foldl fl_max (Fin (r ! j)) (map Fin (map (\<lambda>row. row ! j) rs))
              = Fin (foldl max (r ! j) (map (\<lambda>row. row ! j) rs))"
        by (rule foldl_fl_max_Fin)
      also have "\<dots> = Fin (Max (set (r ! j # map (\<lambda>row. row ! j) rs)))"
        by (simp only: foldl_max_Max)
      also have "r ! j # map (\<lambda>row. row ! j) rs = rcolumn xr j"
        by (simp add: rcolumn_def xr)
      finally show ?thesis .
    qed
    finally show "?res ! j = map (\<lambda>j. Fin (Max (set (rcolumn xr j)))) [0..<D] ! j"
      using j by simp
  qed
  then show ?thesis using e by simp
qed

lemma rescale_in_range:
  fixes low high v :: real and c :: "real list"
  assumes "low \<le> high" and "v \<in> set c" and "Max (set c) \<noteq> Min (set c)"
  shows "low \<le> (v - Min (set c)) * (high - low) / (Max (set c) - Min (set c)) + low
         \<and> (v - Min (set c)) * (high - low) / (Max (set c) - Min (set c)) + low \<le> high"
proof -
  let ?mn = "Min (set c)" and ?mx = "Max (set c)"
  have mn: "?mn \<le> v" using assms(2) by simp
  have mx: "v \<le> ?mx" using assms(2) by simp
  have pos: "0 < ?mx - ?mn" using mn mx assms(3) by linarith
  let ?t = "(v - ?mn) / (?mx - ?mn)"
  have t0: "0 \<le> ?t" using mn pos by simp
  have t1: "?t \<le> 1" using mx pos by simp
  have e: "(v - ?mn) * (high - low) / (?mx - ?mn) = ?t * (high - low)" by simp
  have "0 \<le> ?t * (high - low)" using t0 assms(1) by (intro mult_nonneg_nonneg) simp_all
  moreover have "?t * (high - low) \<le> 1 * (high - low)"
    using t1 assms(1) by (intro mult_right_mono) simp_all
  ultimately show ?thesis unfolding e by simp
qed

lemma fl_sub_Fin: "fl_sub (Fin a) (Fin b) = Fin (a - b)"
  by (simp add: fl_sub_def)

lemma rcolumns_eq:
  assumes "xr \<noteq> []" and "\<forall>r \<in> set xr. length r = D"
  shows "rcolumns xr = map (rcolumn xr) [0..<D]"
  using assms by (cases xr) (auto simp: rcolumns_def)

lemma columns_of_selection:
  assumes "sc \<noteq> []"
  shows "columns (map (\<lambda>r. map (\<lambda>j. r ! j) js) sc) = map (\<lambda>j. map (\<lambda>r. r ! j) sc) js"
proof -
  from assms obtain r rs where sc: "sc = r # rs" by (cases sc) auto
  have nf: "num_features (map (\<lambda>r. map (\<lambda>j. r ! j) js) sc) = length js"
    by (simp add: num_features_def sc)
  show ?thesis
    unfolding columns_def nf column_def
    by (rule nth_equalityI) (auto simp: comp_def)
qed

lemma ex_min: "min_dim0 (fin_matrix [[0, 5], [2, 5]]) = Inr [Fin 0, Fin 5]"
  by (simp add: fin_matrix_def min_dim0_def fl_min_def)

lemma ex_max: "max_dim0 (fin_matrix [[0, 5], [2, 5]]) = Inr [Fin 2, Fin 5]"
  by (simp add: fin_matrix_def max_dim0_def fl_max_def)

lemma ex_delta: "vec_sub [Fin 2, Fin 5] [Fin 0, Fin 5] = [Fin 2, Fin 0]"
  by (simp add: vec_sub_def fl_sub_def)

lemma ex_nonzero: "nonzero [Fin 2, Fin 0] = [0]"
  by (simp add: nonzero_def upt_rec)

lemma ex_normalize:
  "Normalize_call 0 1 (fin_matrix [[0, 5], [2, 5]]) = Inr (Vec [Fin 0, Fin 1])"
  unfolding Normalize_call_def ex_min ex_max sum.case Let_def ex_delta ex_nonzero
  by (simp add: fin_matrix_def fl_sub_def)

text \<open>
  Claim C8. For an attribute matrix with at least one row and finite entries, and
  \<open>low \<le> high\<close>: Normalize succeeds, and the columns of its result are exactly the
  input columns whose range (max - min) is not zero, in their order, each rescaled by
  \<open>(v - min) * (high - low) / (max - min) + low\<close>; all their values lie between \<open>low\<close>
  and \<open>high\<close>, and no column with range zero is in the result. (When exactly one column
  remains, the result is the vector of that column.)
\<close>

theorem Normalize_keeps_nonconstant_columns:
  assumes "xr \<noteq> []" and "\<forall>r \<in> set xr. length r = D" and "low \<le> high"
  shows "\<exists>t. Normalize_call low high (fin_matrix xr) = Inr t
           \<and> tensor_columns t
               = map (\<lambda>c. map Fin (rescale low high c))
                   (filter (\<lambda>c. Max (set c) \<noteq> Min (set c)) (rcolumns xr))
           \<and> (\<forall>c \<in> set (filter (\<lambda>c. Max (set c) \<noteq> Min (set c)) (rcolumns xr)).
                 \<forall>v \<in> set (rescale low high c). low \<le> v \<and> v \<le> high)
           \<and> (case t of Vec _ \<Rightarrow> length (filter (\<lambda>c. Max (set c) \<noteq> Min (set c)) (rcolumns xr)) = 1
                | Mat _ \<Rightarrow> length (filter (\<lambda>c. Max (set c) \<noteq> Min (set c)) (rcolumns xr)) \<noteq> 1)"
proof -
  define mn where "mn = (\<lambda>j. Min (set (rcolumn xr j)))"
  define mx where "mx = (\<lambda>j. Max (set (rcolumn xr j)))"
  define alpha where "alpha = map (\<lambda>j. Fin (mn j)) [0..<D]"
  define beta where "beta = map (\<lambda>j. Fin (mx j)) [0..<D]"
  define dl where "dl = vec_sub beta alpha"
  define g where "g = (\<lambda>((v, a), d). fl_add (fl_div (fl_mul (fl_sub v a) (Fin (high - low))) d) (Fin low))"
  define sc where "sc = map (\<lambda>r. map g (zip (zip r alpha) dl)) (fin_matrix xr)"
  define keep where "keep = nonzero dl"
  define P where "P = (\<lambda>c::real list. Max (set c) \<noteq> Min (set c))"
  have a: "min_dim0 (fin_matrix xr) = Inr alpha"
    unfolding alpha_def mn_def by (rule min_dim0_fin[OF assms(1,2)])
  have b: "max_dim0 (fin_matrix xr) = Inr beta"
    unfolding beta_def mx_def by (rule max_dim0_fin[OF assms(1,2)])
  have dl: "dl = map (\<lambda>j. Fin (mx j - mn j)) [0..<D]"
    unfolding dl_def vec_sub_def alpha_def beta_def
    by (rule nth_equalityI) (auto simp: fl_sub_Fin)
  have keep: "keep = filter (\<lambda>j. mx j \<noteq> mn j) [0..<D]"
    unfolding keep_def nonzero_def dl by (auto intro!: filter_cong)
  have call: "Normalize_call low high (fin_matrix xr)
      = (case keep of [j] \<Rightarrow> Inr (Vec (map (\<lambda>r. r ! j) sc))
         | js \<Rightarrow> Inr (Mat (map (\<lambda>r. map (\<lambda>j. r ! j) js) sc)))"
    unfolding Normalize_call_def a b sum.case Let_def
      dl_def[symmetric] g_def[symmetric] sc_def[symmetric] keep_def[symmetric] ..
  have scne: "sc \<noteq> []" using assms(1) by (simp add: sc_def fin_matrix_def)
  define t where "t = (case keep of [j] \<Rightarrow> Vec (map (\<lambda>r. r ! j) sc)
         | js \<Rightarrow> Mat (map (\<lambda>r. map (\<lambda>j. r ! j) js) sc))"
  have call': "Normalize_call low high (fin_matrix xr) = Inr t"
    unfolding call t_def by (auto split: list.splits)
  have tc: "tensor_columns t = map (\<lambda>j. map (\<lambda>r. r ! j) sc) keep"
  proof (cases "\<exists>j. keep = [j]")
    case True
    then obtain j where k: "keep = [j]" by blast
    then have "t = Vec (map (\<lambda>r. r ! j) sc)" unfolding t_def by simp
    then show ?thesis using k by (simp add: tensor_columns_def)
  next
    case False
    then have "t = Mat (map (\<lambda>r. map (\<lambda>j. r ! j) keep) sc)"
      unfolding t_def by (auto split: list.splits)
    then have "tensor_columns t = columns (map (\<lambda>r. map (\<lambda>j. r ! j) keep) sc)"
      by (simp add: tensor_columns_def)
    then show ?thesis by (simp only: columns_of_selection[OF scne])
  qed
  have col: "map (\<lambda>r. r ! j) sc = map Fin (rescale low high (rcolumn xr j))"
    if j: "j \<in> set keep" for j
  proof -
    have jD: "j < D" and ne: "mx j \<noteq> mn j" using j keep by auto
    have "\<And>r. r \<in> set xr \<Longrightarrow>
           map g (zip (zip (map Fin r) alpha) dl) ! j
             = Fin ((r ! j - mn j) * (high - low) / (mx j - mn j) + low)"
    proof -
      fix r assume r: "r \<in> set xr"
      then have lr: "length r = D" using assms(2) by simp
      have "map g (zip (zip (map Fin r) alpha) dl) ! j
              = g ((Fin (r ! j), Fin (mn j)), Fin (mx j - mn j))"
        using lr jD by (simp add: alpha_def dl)
      also have "\<dots> = Fin ((r ! j - mn j) * (high - low) / (mx j - mn j) + low)"
        using ne by (simp add: g_def fl_sub_Fin)
      finally show "map g (zip (zip (map Fin r) alpha) dl) ! j
             = Fin ((r ! j - mn j) * (high - low) / (mx j - mn j) + low)" .
    qed
    then show ?thesis
      unfolding sc_def fin_matrix_def rescale_def rcolumn_def mn_def mx_def
      by (auto simp: comp_def rcolumn_def)
  qed
  have tc2: "tensor_columns t = map (\<lambda>c. map Fin (rescale low high c)) (filter P (rcolumns xr))"
  proof -
    have "tensor_columns t = map (\<lambda>j. map Fin (rescale low high (rcolumn xr j))) keep"
      unfolding tc using col by (intro map_cong) auto
    also have "\<dots> = map (\<lambda>c. map Fin (rescale low high c)) (map (rcolumn xr) keep)"
      by (simp add: comp_def)
    also have "map (rcolumn xr) keep = filter P (rcolumns xr)"
      unfolding keep rcolumns_eq[OF assms(1,2)] filter_map P_def mn_def mx_def comp_def ..
    finally show ?thesis .
  qed
  have rng: "\<forall>c \<in> set (filter P (rcolumns xr)).
                 \<forall>v \<in> set (rescale low high c). low \<le> v \<and> v \<le> high"
    unfolding P_def rescale_def using rescale_in_range[OF assms(3)] by auto
  have lk: "length (filter P (rcolumns xr)) = length keep"
    unfolding keep rcolumns_eq[OF assms(1,2)] filter_map P_def mn_def mx_def comp_def by simp
  have shape: "case t of Vec _ \<Rightarrow> length (filter P (rcolumns xr)) = 1
                | Mat _ \<Rightarrow> length (filter P (rcolumns xr)) \<noteq> 1"
    unfolding lk t_def by (auto split: list.splits)
  show ?thesis using call' tc2 rng shape unfolding P_def by blast
qed

theorem Normalize_keeps_nonconstant_columns_witness:
  "[[0, 5], [2, 5 :: real]] \<noteq> [] \<and> list_all (\<lambda>r. length r = 2) [[0, 5], [2, 5 :: real]]
   \<and> (0 :: real) \<le> 1
   \<and> Normalize_call 0 1 (fin_matrix [[0, 5], [2, 5]]) = Inr (Vec [Fin 0, Fin 1])
   \<and> length (filter (\<lambda>c. Max (set c) \<noteq> Min (set c)) (rcolumns [[0, 5], [2, 5 :: real]])) = 1
   \<and> [[Fin 0, Fin 1]]
       = map (\<lambda>c. map Fin (rescale 0 1 c))
           (filter (\<lambda>c. Max (set c) \<noteq> Min (set c)) (rcolumns [[0, 5], [2, 5]]))"
proof -
  have h1: "[[0, 5], [2, 5 :: real]] \<noteq> []" by simp
  have h2: "\<forall>r \<in> set [[0, 5], [2, 5 :: real]]. length r = 2" by simp
  have h3: "(0 :: real) \<le> 1" by simp
  from Normalize_keeps_nonconstant_columns[OF h1 h2 h3] obtain t where
    t: "Normalize_call 0 1 (fin_matrix [[0, 5], [2, 5]]) = Inr t"
      "tensor_columns t = map (\<lambda>c. map Fin (rescale 0 1 c))
           (filter (\<lambda>c. Max (set c) \<noteq> Min (set c)) (rcolumns [[0, 5], [2, 5]]))"
      "case t of Vec _ \<Rightarrow> length (filter (\<lambda>c. Max (set c) \<noteq> Min (set c)) (rcolumns [[0, 5], [2, 5 :: real]])) = 1
                | Mat _ \<Rightarrow> length (filter (\<lambda>c. Max (set c) \<noteq> Min (set c)) (rcolumns [[0, 5], [2, 5 :: real]])) \<noteq> 1"
    by blast
  have tv: "t = Vec [Fin 0, Fin 1]" using t(1) ex_normalize by simp
  have l: "length (filter (\<lambda>c. Max (set c) \<noteq> Min (set c)) (rcolumns [[0, 5], [2, 5 :: real]])) = 1"
    using t(3) unfolding tv by simp
  have c: "[[Fin 0, Fin 1]]
       = map (\<lambda>c. map Fin (rescale 0 1 c))
           (filter (\<lambda>c. Max (set c) \<noteq> Min (set c)) (rcolumns [[0, 5], [2, 5]]))"
    using t(2) unfolding tv by (simp add: tensor_columns_def)
  have h2': "list_all (\<lambda>r. length r = 2) [[0, 5], [2, 5 :: real]]" by simp
  from h1 h2' h3 ex_normalize l c show ?thesis by (intro conjI)

qed

section \<open>Properties of ErrorEstimation\<close>

lemma fl_sum_zeros: "fl_sum (replicate k (Fin 0)) = Fin 0"
proof -
  have "foldl fl_add (Fin 0) (replicate k (Fin 0)) = Fin 0" by (induction k) auto
  then show ?thesis by (simp add: fl_sum_def)
qed

lemma init_fin:
  assumes "xr \<noteq> []" and "\<forall>r \<in> set xr. length r = D"
  shows "ErrorEstimation_init conv d (fin_matrix xr) q
           = Inr \<lparr>delta = map (\<lambda>j. Fin (Max (set (rcolumn xr j)) - Min (set (rcolumn xr j)))) [0..<D],
                  max_degree_quantile = q, gc = conv (fin_matrix xr) (edge_index d)\<rparr>"
proof -
  have "vec_sub (map (\<lambda>j. Fin (Max (set (rcolumn xr j)))) [0..<D])
                (map (\<lambda>j. Fin (Min (set (rcolumn xr j)))) [0..<D])
          = map (\<lambda>j. Fin (Max (set (rcolumn xr j)) - Min (set (rcolumn xr j)))) [0..<D]"
    unfolding vec_sub_def by (rule nth_equalityI) (auto simp: fl_sub_Fin)
  then show ?thesis
    unfolding ErrorEstimation_init_def min_dim0_fin[OF assms] max_dim0_fin[OF assms] by simp
qed

lemma finite_row_nth: "finite_row D r \<Longrightarrow> j < D \<Longrightarrow> \<exists>a. r ! j = Fin a"
  unfolding finite_row_def by (cases "r ! j") (auto simp: in_set_conv_nth)

lemma raw_diff_row:
  assumes "finite_row D r" and "length dl = D" and "\<forall>j < D. \<exists>c. dl ! j = Fin c"
  shows "map (\<lambda>((a, b), c). fl_div (fl_sub a b) c) (zip (zip r r) dl)
           = map (\<lambda>j. if dl ! j = Fin 0 then NaN else Fin 0) [0..<D]"
proof (rule nth_equalityI)
  show "length (map (\<lambda>((a, b), c). fl_div (fl_sub a b) c) (zip (zip r r) dl))
          = length (map (\<lambda>j. if dl ! j = Fin 0 then NaN else Fin 0) [0..<D])"
    using assms by (simp add: finite_row_def)
next
  fix j assume "j < length (map (\<lambda>((a, b), c). fl_div (fl_sub a b) c) (zip (zip r r) dl))"
  then have j: "j < D" using assms by (simp add: finite_row_def)
  from finite_row_nth[OF assms(1) j] obtain a where a: "r ! j = Fin a" by blast
  from assms(3) j obtain c where c: "dl ! j = Fin c" by blast
  have lr: "length r = D" using assms(1) by (simp add: finite_row_def)
  show "map (\<lambda>((a, b), c). fl_div (fl_sub a b) c) (zip (zip r r) dl) ! j
          = map (\<lambda>j. if dl ! j = Fin 0 then NaN else Fin 0) [0..<D] ! j"
    using j lr assms(2) a c by (simp add: fl_sub_Fin)
qed

lemma zero_row:
  assumes "length dl = D" and "\<forall>j < D. \<exists>c. dl ! j = Fin c"
  shows "map (\<lambda>(v, c). if c = Fin 0 then Fin 0 else v)
             (zip (map (\<lambda>j. if dl ! j = Fin 0 then NaN else Fin 0) [0..<D]) dl)
           = replicate D (Fin 0)"
  by (rule nth_equalityI) (use assms in auto)

lemma raw_diff_same:
  assumes "\<forall>r \<in> set G. finite_row D r" and "length dl = D" and "\<forall>j < D. \<exists>c. dl ! j = Fin c"
  shows "raw_diff G G dl = map (\<lambda>r. map (\<lambda>j. if dl ! j = Fin 0 then NaN else Fin 0) [0..<D]) G"
proof -
  have "raw_diff G G dl = map (\<lambda>r. map (\<lambda>((a, b), c). fl_div (fl_sub a b) c) (zip (zip r r) dl)) G"
    unfolding raw_diff_def by (induction G) auto
  also have "\<dots> = map (\<lambda>r. map (\<lambda>j. if dl ! j = Fin 0 then NaN else Fin 0) [0..<D]) G"
    using assms raw_diff_row by (intro map_cong) auto
  finally show ?thesis .
qed

lemma zero_columns_same:
  assumes "\<forall>r \<in> set G. finite_row D r" and "length dl = D" and "\<forall>j < D. \<exists>c. dl ! j = Fin c"
  shows "zero_columns (raw_diff G G dl) dl = map (\<lambda>r. replicate D (Fin 0)) G"
  unfolding raw_diff_same[OF assms] zero_columns_def
  using zero_row[OF assms(2,3)] by (simp add: comp_def)

lemma node_errors_same:
  assumes "xr \<noteq> []" and "\<forall>r \<in> set xr. length r = D" and "0 < D"
    and "attributes (st, d) = fin_matrix xr"
    and "\<forall>r \<in> set (conv (fin_matrix xr) (edge_index d)). finite_row D r"
    and "gc est = conv (fin_matrix xr) (edge_index d)"
    and "length (delta est) = D" and "\<forall>j < D. \<exists>c. delta est ! j = Fin c"
  shows "node_errors conv est (st, d) = Inr (replicate (length (gc est)) (Fin 0))"
proof -
  let ?G = "conv (fin_matrix xr) (edge_index d)"
  have xm: "ftensors st ! data_x d = fin_matrix xr" using assms(4) by (simp add: attributes_def)
  have nf: "num_features (fin_matrix xr) = D"
    using assms(1,2) by (cases xr) (auto simp: num_features_def fin_matrix_def)
  have shape: "\<not> (length ?G \<noteq> length (gc est)
            \<or> (\<exists>r \<in> set (gc est). length r \<noteq> length (delta est))
            \<or> (\<exists>r \<in> set ?G. length r \<noteq> length (delta est)))"
    using assms(5,6,7) by (auto simp: finite_row_def)
  have z: "zero_columns (raw_diff (gc est) ?G (delta est)) (delta est)
             = map (\<lambda>r. replicate D (Fin 0)) ?G"
    unfolding assms(6) by (rule zero_columns_same[OF assms(5,7,8)])
  have e: "fl_div (norm1 (replicate D (Fin 0))) (Fin (real D)) = Fin 0"
    using assms(3) by (simp add: norm1_def fl_sum_zeros)
  have "node_errors conv est (st, d)
          = Inr (map (\<lambda>r. fl_div (norm1 r) (Fin (real D))) (map (\<lambda>r. replicate D (Fin 0)) ?G))"
    unfolding node_errors_def Let_def prod.case xm nf using shape z by simp
  also have "map (\<lambda>r. fl_div (norm1 r) (Fin (real D))) (map (\<lambda>r. replicate D (Fin 0)) ?G)
               = replicate (length (gc est)) (Fin 0)"
    unfolding assms(6) by (simp add: comp_def e map_replicate_const)
  finally show ?thesis .
qed

lemma degree_cycle5: "degree (fst cycle5) 5 = Inr [2, 2, 2, 2, 2]"
  by (simp add: degree_def cycle5_def upt_rec)

lemma quantile_twos: "quantile [2, 2, 2, 2, 2] (99 / 100) = Inr (Fin 2)"
  by (simp add: quantile_def Let_def)

lemma groupby_agg_empty: "groupby_agg [] = []"
  by (simp add: groupby_agg_def)

lemma cycle5_run:
  assumes "length xr = 5" and "\<forall>r \<in> set xr. length r = 3"
    and "attributes (st, d) = fin_matrix xr"
    and "edge_index d = cycle5" and "num_nodes d = 5"
    and "length (conv (fin_matrix xr) cycle5) = 5"
    and "\<forall>r \<in> set (conv (fin_matrix xr) cycle5). finite_row 3 r"
  shows "\<exists>est. ErrorEstimation_init conv d (fin_matrix xr) (99 / 100) = Inr est
           \<and> node_errors conv est (st, d) = Inr [Fin 0, Fin 0, Fin 0, Fin 0, Fin 0]
           \<and> degree (fst (edge_index d)) (num_nodes d) = Inr [2, 2, 2, 2, 2]
           \<and> quantile [2, 2, 2, 2, 2] (max_degree_quantile est) = Inr (Fin 2)
           \<and> run conv est (st, d) = Inr []"
proof -
  define est where "est = \<lparr>delta = map (\<lambda>j. Fin (Max (set (rcolumn xr j)) - Min (set (rcolumn xr j)))) [0..<3],
                  max_degree_quantile = 99 / 100, gc = conv (fin_matrix xr) (edge_index d)\<rparr>"
  have ne: "xr \<noteq> []" using assms(1) by auto
  have i: "ErrorEstimation_init conv d (fin_matrix xr) (99 / 100) = Inr est"
    unfolding est_def by (rule init_fin[OF ne assms(2)])
  have g: "gc est = conv (fin_matrix xr) (edge_index d)" by (simp add: est_def)
  have l: "length (delta est) = 3" by (simp add: est_def)
  have f: "\<forall>j < 3. \<exists>c. delta est ! j = Fin c" by (simp add: est_def)
  have fr: "\<forall>r \<in> set (conv (fin_matrix xr) (edge_index d)). finite_row 3 r"
    using assms(4,7) by simp
  have "node_errors conv est (st, d) = Inr (replicate (length (gc est)) (Fin 0))"
    by (rule node_errors_same[where conv=conv, OF ne assms(2) _ assms(3) fr g l f]) simp
  moreover have "length (gc est) = 5" using g assms(4,6) by simp
  ultimately have er: "node_errors conv est (st, d) = Inr [Fin 0, Fin 0, Fin 0, Fin 0, Fin 0]"
    by (simp add: eval_nat_numeral)
  have dg: "degree (fst (edge_index d)) (num_nodes d) = Inr [2, 2, 2, 2, 2]"
    unfolding assms(4,5) by (rule degree_cycle5)
  have q: "quantile [2, 2, 2, 2, 2] (max_degree_quantile est) = Inr (Fin 2)"
    using quantile_twos by (simp add: est_def)
  have r: "run conv est (st, d) = Inr []"
    by (simp add: run_def er dg q groupby_agg_empty)
  show ?thesis using i er dg q r by blast
qed

lemma ex_cycle_attr: "attributes (ex_cycle_store, ex_cycle_data) = fin_matrix ex_cycle_x"
  by (simp add: attributes_def ex_cycle_store_def ex_cycle_data_def)

lemma ex_cycle_conv:
  "sum_conv (fin_matrix ex_cycle_x) cycle5
     = [[Fin 5, Fin 3, Fin 6], [Fin 3, Fin 3, Fin 6], [Fin 6, Fin 3, Fin 6],
        [Fin 9, Fin 3, Fin 6], [Fin 7, Fin 3, Fin 6]]"
  by (simp add: sum_conv_def fin_matrix_def ex_cycle_x_def cycle5_def vec_add_def upt_rec)

lemma ex_cycle_hyps:
  "length ex_cycle_x = 5" "\<forall>r \<in> set ex_cycle_x. length r = 3"
  "edge_index ex_cycle_data = cycle5" "num_nodes ex_cycle_data = 5"
  "length (sum_conv (fin_matrix ex_cycle_x) cycle5) = 5"
  "\<forall>r \<in> set (sum_conv (fin_matrix ex_cycle_x) cycle5). finite_row 3 r"
  unfolding ex_cycle_conv by (simp_all add: ex_cycle_x_def ex_cycle_data_def finite_row_def)

lemma ex_cycle_init:
  "ErrorEstimation_init sum_conv ex_cycle_data (fin_matrix ex_cycle_x) (99 / 100)
     = Inr \<lparr>delta = [Fin 4, Fin 0, Fin 0], max_degree_quantile = 99 / 100,
            gc = [[Fin 5, Fin 3, Fin 6], [Fin 3, Fin 3, Fin 6], [Fin 6, Fin 3, Fin 6],
                  [Fin 9, Fin 3, Fin 6], [Fin 7, Fin 3, Fin 6]]\<rparr>"
proof -
  have mn: "min_dim0 (fin_matrix ex_cycle_x) = Inr [Fin 0, Fin 1, Fin 2]"
    by (simp add: fin_matrix_def ex_cycle_x_def min_dim0_def fl_min_def)
  have mx: "max_dim0 (fin_matrix ex_cycle_x) = Inr [Fin 4, Fin 1, Fin 2]"
    by (simp add: fin_matrix_def ex_cycle_x_def max_dim0_def fl_max_def)
  have e: "edge_index ex_cycle_data = cycle5" by (simp add: ex_cycle_data_def)
  show ?thesis
    unfolding ErrorEstimation_init_def mn mx e ex_cycle_conv
    by (simp add: vec_sub_def fl_sub_def)
qed

text \<open>
  Claim C5. For a pristine attribute matrix with at least one row, a positive number of
  columns and finite entries, a convolution whose result has finite rows of that width,
  and a dataset whose current attributes are the pristine ones: the estimator is
  constructed, the recomputed diffusion equals the cached one, the quotient by \<open>delta\<close>
  is NaN exactly in the columns whose range is 0 and 0 elsewhere, the assignment of
  line 33 makes every entry 0, and the error of every node is 0.
\<close>

theorem unperturbed_attributes_zero_error:
  assumes "xr \<noteq> []" and "\<forall>r \<in> set xr. length r = D" and "0 < D"
    and "attributes (st, d) = fin_matrix xr"
    and "\<forall>r \<in> set (conv (fin_matrix xr) (edge_index d)). finite_row D r"
  shows "\<exists>est. ErrorEstimation_init conv d (fin_matrix xr) q = Inr est
           \<and> conv (attributes (st, d)) (edge_index d) = gc est
           \<and> (\<forall>r \<in> set (raw_diff (gc est) (conv (attributes (st, d)) (edge_index d)) (delta est)).
                 \<forall>j < D. r ! j = (if delta est ! j = Fin 0 then NaN else Fin 0))
           \<and> (\<forall>r \<in> set (zero_columns
                            (raw_diff (gc est) (conv (attributes (st, d)) (edge_index d)) (delta est))
                            (delta est)).
                 \<forall>v \<in> set r. v = Fin 0)
           \<and> node_errors conv est (st, d) = Inr (replicate (length (gc est)) (Fin 0))"
proof -
  define est where "est = \<lparr>delta = map (\<lambda>j. Fin (Max (set (rcolumn xr j)) - Min (set (rcolumn xr j)))) [0..<D],
                  max_degree_quantile = q, gc = conv (fin_matrix xr) (edge_index d)\<rparr>"
  have i: "ErrorEstimation_init conv d (fin_matrix xr) q = Inr est"
    unfolding est_def by (rule init_fin[OF assms(1,2)])
  have g: "gc est = conv (fin_matrix xr) (edge_index d)" by (simp add: est_def)
  have l: "length (delta est) = D" by (simp add: est_def)
  have f: "\<forall>j < D. \<exists>c. delta est ! j = Fin c" by (simp add: est_def)
  have same: "conv (attributes (st, d)) (edge_index d) = gc est" using g assms(4) by simp
  have fr: "\<forall>r \<in> set (gc est). finite_row D r" using assms(5) g by simp
  have rd: "\<forall>r \<in> set (raw_diff (gc est) (gc est) (delta est)).
                 \<forall>j < D. r ! j = (if delta est ! j = Fin 0 then NaN else Fin 0)"
    unfolding raw_diff_same[OF fr l f] by auto
  have zc: "\<forall>r \<in> set (zero_columns (raw_diff (gc est) (gc est) (delta est)) (delta est)).
                 \<forall>v \<in> set r. v = Fin 0"
    unfolding zero_columns_same[OF fr l f] by auto
  note ne = node_errors_same[where conv=conv, OF assms(1,2,3,4,5) g l f]
  show ?thesis using i same rd zc ne by (intro exI[of _ est]) simp
qed

theorem unperturbed_attributes_zero_error_witness:
  "ex_cycle_x \<noteq> [] \<and> list_all (\<lambda>r. length r = 3) ex_cycle_x \<and> (0::nat) < 3
   \<and> attributes (ex_cycle_store, ex_cycle_data) = fin_matrix ex_cycle_x
   \<and> list_all (finite_row 3) (sum_conv (fin_matrix ex_cycle_x) (edge_index ex_cycle_data))
   \<and> node_errors sum_conv \<lparr>delta = [Fin 4, Fin 0, Fin 0], max_degree_quantile = 99 / 100,
            gc = [[Fin 5, Fin 3, Fin 6], [Fin 3, Fin 3, Fin 6], [Fin 6, Fin 3, Fin 6],
                  [Fin 9, Fin 3, Fin 6], [Fin 7, Fin 3, Fin 6]]\<rparr>
         (ex_cycle_store, ex_cycle_data) = Inr [Fin 0, Fin 0, Fin 0, Fin 0, Fin 0]"
proof -
  have h1: "ex_cycle_x \<noteq> []" by (simp add: ex_cycle_x_def)
  have h3: "(0::nat) < 3" by simp
  have h5: "\<forall>r \<in> set (sum_conv (fin_matrix ex_cycle_x) (edge_index ex_cycle_data)). finite_row 3 r"
    using ex_cycle_hyps(6) unfolding ex_cycle_hyps(3) .
  from unperturbed_attributes_zero_error[where conv=sum_conv and q="99 / 100",
      OF h1 ex_cycle_hyps(2) h3 ex_cycle_attr h5]
  obtain est where
    i: "ErrorEstimation_init sum_conv ex_cycle_data (fin_matrix ex_cycle_x) (99 / 100) = Inr est"
    and n: "node_errors sum_conv est (ex_cycle_store, ex_cycle_data)
              = Inr (replicate (length (gc est)) (Fin 0))" by blast
  have est: "est = \<lparr>delta = [Fin 4, Fin 0, Fin 0], max_degree_quantile = 99 / 100,
            gc = [[Fin 5, Fin 3, Fin 6], [Fin 3, Fin 3, Fin 6], [Fin 6, Fin 3, Fin 6],
                  [Fin 9, Fin 3, Fin 6], [Fin 7, Fin 3, Fin 6]]\<rparr>"
    using i ex_cycle_init by simp
  have "node_errors sum_conv \<lparr>delta = [Fin 4, Fin 0, Fin 0], max_degree_quantile = 99 / 100,
            gc = [[Fin 5, Fin 3, Fin 6], [Fin 3, Fin 3, Fin 6], [Fin 6, Fin 3, Fin 6],
                  [Fin 9, Fin 3, Fin 6], [Fin 7, Fin 3, Fin 6]]\<rparr>
         (ex_cycle_store, ex_cycle_data) = Inr [Fin 0, Fin 0, Fin 0, Fin 0, Fin 0]"
    using n unfolding est by (simp add: eval_nat_numeral)
  moreover have "list_all (\<lambda>r. length r = 3) ex_cycle_x"
    using ex_cycle_hyps(2) by (simp add: list_all_iff)
  moreover have "list_all (finite_row 3) (sum_conv (fin_matrix ex_cycle_x) (edge_index ex_cycle_data))"
    using h5 by (simp add: list_all_iff)
  ultimately show ?thesis using h1 h3 ex_cycle_attr by (intro conjI)
qed

text \<open>
  Claim C4, as amended. On the cycle of five nodes with three-dimensional finite
  attributes that have not been perturbed, with the quantile 0.99: every node has error 0
  and degree 2, the 0.99-quantile of the degrees is 2, and since only nodes whose degree
  is strictly below the quantile are kept, \<open>run\<close> reports no bucket at all.
\<close>

theorem cycle5_reports_no_bucket:
  assumes "length xr = 5" and "\<forall>r \<in> set xr. length r = 3"
    and "attributes (st, d) = fin_matrix xr"
    and "edge_index d = cycle5" and "num_nodes d = 5"
    and "length (conv (fin_matrix xr) cycle5) = 5"
    and "\<forall>r \<in> set (conv (fin_matrix xr) cycle5). finite_row 3 r"
  shows "\<exists>est. ErrorEstimation_init conv d (fin_matrix xr) (99 / 100) = Inr est
           \<and> node_errors conv est (st, d) = Inr [Fin 0, Fin 0, Fin 0, Fin 0, Fin 0]
           \<and> degree (fst (edge_index d)) (num_nodes d) = Inr [2, 2, 2, 2, 2]
           \<and> quantile [2, 2, 2, 2, 2] (max_degree_quantile est) = Inr (Fin 2)
           \<and> run conv est (st, d) = Inr []"
  using assms by (rule cycle5_run)

theorem cycle5_reports_no_bucket_witness:
  "length ex_cycle_x = 5 \<and> list_all (\<lambda>r. length r = 3) ex_cycle_x
   \<and> attributes (ex_cycle_store, ex_cycle_data) = fin_matrix ex_cycle_x
   \<and> edge_index ex_cycle_data = cycle5 \<and> num_nodes ex_cycle_data = 5
   \<and> length (sum_conv (fin_matrix ex_cycle_x) cycle5) = 5
   \<and> list_all (finite_row 3) (sum_conv (fin_matrix ex_cycle_x) cycle5)
   \<and> (\<exists>est. ErrorEstimation_init sum_conv ex_cycle_data (fin_matrix ex_cycle_x) (99 / 100) = Inr est
           \<and> run sum_conv est (ex_cycle_store, ex_cycle_data) = Inr [])"
proof -
  note c = cycle5_reports_no_bucket[where conv=sum_conv, OF ex_cycle_hyps(1,2) ex_cycle_attr
      ex_cycle_hyps(3-6)]
  from c have "\<exists>est. ErrorEstimation_init sum_conv ex_cycle_data (fin_matrix ex_cycle_x) (99 / 100) = Inr est
           \<and> run sum_conv est (ex_cycle_store, ex_cycle_data) = Inr []" by blast
  moreover have "list_all (\<lambda>r. length r = 3) ex_cycle_x"
    using ex_cycle_hyps(2) by (simp add: list_all_iff)
  moreover have "list_all (finite_row 3) (sum_conv (fin_matrix ex_cycle_x) cycle5)"
    using ex_cycle_hyps(6) by (simp add: list_all_iff)
  ultimately show ?thesis using ex_cycle_hyps(1,3,4,5) ex_cycle_attr by (intro conjI)
qed

text \<open>
  Claim C4 as stated fails: in the scenario, \<open>run\<close> logs nothing, not one bucket for
  degree 2 with mean 0 and deviation 0.
\<close>

theorem cycle5_single_bucket_counterexample:
  "ErrorEstimation_init sum_conv ex_cycle_data (attributes (ex_cycle_store, ex_cycle_data)) (99 / 100)
     = Inr \<lparr>delta = [Fin 4, Fin 0, Fin 0], max_degree_quantile = 99 / 100,
            gc = [[Fin 5, Fin 3, Fin 6], [Fin 3, Fin 3, Fin 6], [Fin 6, Fin 3, Fin 6],
                  [Fin 9, Fin 3, Fin 6], [Fin 7, Fin 3, Fin 6]]\<rparr>
   \<and> run sum_conv \<lparr>delta = [Fin 4, Fin 0, Fin 0], max_degree_quantile = 99 / 100,
            gc = [[Fin 5, Fin 3, Fin 6], [Fin 3, Fin 3, Fin 6], [Fin 6, Fin 3, Fin 6],
                  [Fin 9, Fin 3, Fin 6], [Fin 7, Fin 3, Fin 6]]\<rparr>
         (ex_cycle_store, ex_cycle_data) = Inr []
   \<and> run sum_conv \<lparr>delta = [Fin 4, Fin 0, Fin 0], max_degree_quantile = 99 / 100,
            gc = [[Fin 5, Fin 3, Fin 6], [Fin 3, Fin 3, Fin 6], [Fin 6, Fin 3, Fin 6],
                  [Fin 9, Fin 3, Fin 6], [Fin 7, Fin 3, Fin 6]]\<rparr>
         (ex_cycle_store, ex_cycle_data) \<noteq> Inr [(2, Fin 0, Fin 0)]"
proof -
  from cycle5_run[where conv=sum_conv, OF ex_cycle_hyps(1,2) ex_cycle_attr ex_cycle_hyps(3-6)]
  obtain est where
    i: "ErrorEstimation_init sum_conv ex_cycle_data (fin_matrix ex_cycle_x) (99 / 100) = Inr est"
    and r: "run sum_conv est (ex_cycle_store, ex_cycle_data) = Inr []" by blast
  have est: "est = \<lparr>delta = [Fin 4, Fin 0, Fin 0], max_degree_quantile = 99 / 100,
            gc = [[Fin 5, Fin 3, Fin 6], [Fin 3, Fin 3, Fin 6], [Fin 6, Fin 3, Fin 6],
                  [Fin 9, Fin 3, Fin 6], [Fin 7, Fin 3, Fin 6]]\<rparr>"
    using i ex_cycle_init by simp
  show ?thesis using ex_cycle_init r unfolding est ex_cycle_attr by simp
qed

end
